theory Spec2Isabelle
  imports Main "HOL-Library.Word"
begin

unbundle bit_operations_syntax

section \<open>Soft kills of drx.c: data model\<close>

text \<open>
  The embedding follows the soft-kill part of \<^verbatim>\<open>src/ext/drx/drx.c\<close> (lines 403 to 943)
  and \<^verbatim>\<open>drx_exit\<close> (lines 103 to 115), for a 64-bit, non-DEBUG build
  (\<^verbatim>\<open>ASSERT\<close> and \<^verbatim>\<open>IF_DEBUG\<close> expand to nothing). Both branches of
  \<^verbatim>\<open>#ifdef WINDOWS\<close> are modelled; where one C name has two bodies, the model has
  one definition per body, suffixed \<open>_WINDOWS\<close> and \<open>_UNIX\<close>, and a dispatcher
  over \<open>platform\<close> carrying the C name.

  Registers, handles, addresses and function pointers are 64-bit words; \<^verbatim>\<open>int\<close>,
  \<^verbatim>\<open>DWORD\<close>, \<^verbatim>\<open>ULONG\<close> and \<^verbatim>\<open>NTSTATUS\<close> are 32-bit words (read signed
  where C compares them signed). \<^verbatim>\<open>process_id_t\<close> is declared in a header that is
  not among the sources, so it is a type parameter \<open>'pid\<close>.
\<close>

type_synonym reg_t = "64 word"
type_synonym HANDLE = "64 word"
type_synonym app_pc = "64 word"
type_synonym cb_ptr = "64 word"
type_synonym int32 = "32 word"
type_synonym DWORD = "32 word"
type_synonym ULONG = "32 word"
type_synonym NTSTATUS = "32 word"

datatype platform = WINDOWS | UNIX

text \<open>
  Every call that leaves drx.c and has an effect outside it is recorded, in program
  order, as an event: a subscriber callback \<^verbatim>\<open>e->cb(pid, exit_code)\<close>, the emulated
  kill \<^verbatim>\<open>NtTerminateProcess(phandle, exit_code)\<close>, \<^verbatim>\<open>dr_syscall_set_result\<close>, and
  the registrations of activation and teardown.
\<close>

datatype 'pid event =
    Ev_cb cb_ptr 'pid int32
  | Ev_NtTerminateProcess HANDLE int32
  | Ev_set_result reg_t
  | Ev_intercept_natively string int32
  | Ev_register_cls_field
  | Ev_unregister_cls_field int32
  | Ev_register_pre_syscall
  | Ev_register_post_syscall
  | Ev_register_filter_syscall
  | Ev_drmgr_exit

text \<open>
  The environment: what drx.c reads from DynamoRIO, drmgr and the operating system.
  None of these functions is defined in the sources, so each is a parameter.
  \<^item> \<open>cb_fun\<close>: the code behind a registered function pointer, a function of
    \<open>(pid, exit_code)\<close>; a callback is modelled by the boolean it returns, what
    else it does is outside drx.c;
  \<^item> \<open>pid_of_reg\<close>: the cast \<^verbatim>\<open>(process_id_t)\<close> of a syscall parameter;
  \<^item> \<open>NtQueryInformationJobObject_num job\<close>: status and
    \<^verbatim>\<open>empty.NumberOfAssignedProcesses\<close> of the query with the one-entry buffer;
  \<^item> \<open>NtQueryInformationJobObject_list job n\<close>: status of the query with a buffer of
    \<open>n\<close> entries, and the buffer's \<^verbatim>\<open>ProcessIdList[i]\<close> afterwards;
  \<^item> \<open>NtQueryInformationProcess_basic\<close>: status, \<^verbatim>\<open>got\<close> and
    \<^verbatim>\<open>info.ExitStatus\<close> of the query on the current process;
  \<^item> \<open>hash_key\<close>: the hash function of the handle table;
  \<^item> the remaining fields are the results of the calls of the same name.
\<close>

record 'pid env =
  INVALID_PROCESS_ID :: 'pid
  dr_get_process_id :: 'pid
  pid_of_reg :: "reg_t \<Rightarrow> 'pid"
  dr_convert_handle_to_pid :: "HANDLE \<Rightarrow> 'pid"
  dr_convert_pid_to_handle :: "'pid \<Rightarrow> HANDLE"
  SYS_kill :: int32
  cb_fun :: "cb_ptr \<Rightarrow> 'pid \<Rightarrow> int32 \<Rightarrow> bool"
  NtQueryInformationJobObject_num :: "HANDLE \<Rightarrow> NTSTATUS \<times> DWORD"
  NtQueryInformationJobObject_list :: "HANDLE \<Rightarrow> nat \<Rightarrow> NTSTATUS \<times> (nat \<Rightarrow> 'pid)"
  NtQueryInformationProcess_basic :: "NTSTATUS \<times> ULONG \<times> NTSTATUS"
  hash_key :: "HANDLE \<Rightarrow> nat"
  dr_lookup_module_by_name :: "string \<Rightarrow> HANDLE option"
  dr_get_proc_address :: "HANDLE \<Rightarrow> string \<Rightarrow> app_pc"
  drmgr_decode_sysnum_from_wrapper :: "app_pc \<Rightarrow> int32"
  dr_syscall_intercept_natively :: "string \<Rightarrow> int32 \<Rightarrow> nat \<Rightarrow> nat \<Rightarrow> bool"
  drmgr_register_cls_field :: int32
  drmgr_register_pre_syscall_event :: bool
  drmgr_register_post_syscall_event :: bool

text \<open>
  Constants of the platform headers (\<^verbatim>\<open>signal.h\<close>, the Windows SDK), for the 64-bit
  layout of \<^verbatim>\<open>JOBOBJECT_EXTENDED_LIMIT_INFORMATION\<close> and
  \<^verbatim>\<open>PROCESS_BASIC_INFORMATION\<close>. \<^verbatim>\<open>STATUS_BUFFER_OVERFLOW\<close> is line 491.
\<close>

definition SIGKILL :: int32 where
  "SIGKILL = 9"

definition INVALID_HANDLE_VALUE :: HANDLE where
  "INVALID_HANDLE_VALUE = - 1"

definition JOB_OBJECT_LIMIT_KILL_ON_JOB_CLOSE :: DWORD where
  "JOB_OBJECT_LIMIT_KILL_ON_JOB_CLOSE = 0x2000"

definition JobObjectExtendedLimitInformation :: "32 word" where
  "JobObjectExtendedLimitInformation = 9"

definition sizeof_JOBOBJECT_EXTENDED_LIMIT_INFORMATION :: ULONG where
  "sizeof_JOBOBJECT_EXTENDED_LIMIT_INFORMATION = 144"

definition offsetof_LimitFlags :: "64 word" where
  "offsetof_LimitFlags = 16"


definition STATUS_BUFFER_OVERFLOW :: NTSTATUS where
  "STATUS_BUFFER_OVERFLOW = 0x80000005"

definition NT_SUCCESS :: "NTSTATUS \<Rightarrow> bool" where
  "NT_SUCCESS status = (0 \<le> sint status)"

definition TEST :: "DWORD \<Rightarrow> DWORD \<Rightarrow> bool" where
  "TEST flag var = (flag AND var \<noteq> 0)"

text \<open>\<^verbatim>\<open>cls_soft_t\<close>, lines 468 to 471; a NULL location is 0.\<close>

record cls_soft_t =
  job_limit_flags_orig :: DWORD
  job_limit_flags_loc :: "64 word"

text \<open>
  Application memory as \<^verbatim>\<open>dr_safe_read\<close> and \<^verbatim>\<open>dr_safe_write\<close> see it:
  \<open>contents\<close> is the \<^verbatim>\<open>DWORD\<close> stored at an address, \<open>readable p\<close> says that a
  \<^verbatim>\<open>JOBOBJECT_EXTENDED_LIMIT_INFORMATION\<close> can be read at \<open>p\<close>, \<open>writable p\<close> that
  a \<^verbatim>\<open>DWORD\<close> can be written at \<open>p\<close>. A failed access changes nothing and is reported
  by the boolean, as the two DynamoRIO calls do. Of the structure read at line 709 the
  code uses \<^verbatim>\<open>BasicLimitInformation.LimitFlags\<close> only, so the read returns that field.
\<close>

record memory =
  contents :: "64 word \<Rightarrow> DWORD"
  readable :: "64 word \<Rightarrow> bool"
  writable :: "64 word \<Rightarrow> bool"

definition dr_safe_read_info :: "memory \<Rightarrow> 64 word \<Rightarrow> DWORD option" where
  "dr_safe_read_info m p =
     (if readable m p then Some (contents m (p + offsetof_LimitFlags)) else None)"

definition dr_safe_write :: "memory \<Rightarrow> 64 word \<Rightarrow> DWORD \<Rightarrow> bool \<times> memory" where
  "dr_safe_write m loc v =
     (if writable m loc then (True, m\<lparr>contents := (contents m)(loc := v)\<rparr>)
      else (False, m))"

text \<open>
  \<^verbatim>\<open>hashtable_t\<close> as drx.c reads it at lines 896 to 899: \<^verbatim>\<open>table_bits\<close> and the
  array \<^verbatim>\<open>table\<close> of chains; an entry's payload is the job handle, which is also its
  key (line 735).
\<close>

record hashtable_t =
  table_bits :: nat
  table :: "nat \<Rightarrow> HANDLE list"

definition JOB_TABLE_HASH_BITS :: nat where
  "JOB_TABLE_HASH_BITS = 6"

text \<open>
  Modelled from the spec: the handle-table primitive (\<^verbatim>\<open>hashtable_init\<close>,
  \<^verbatim>\<open>hashtable_add\<close>, \<^verbatim>\<open>hashtable_remove\<close>, \<^verbatim>\<open>hashtable_delete\<close> of drhashtable) is
  not among the sources. The spec, section 4.2: \<open>add(handle)\<close> fails only if the handle
  is already present; \<open>remove(handle) -> bool\<close> returns whether it was present; section 1
  calls it a chained table. A handle lives in the chain its hash selects;
  \<^verbatim>\<open>HASHTABLE_SIZE\<close>, a macro of the same missing header, is the number of chains of a
  table of \<open>num_bits\<close> bits.
\<close>

definition HASHTABLE_SIZE :: "nat \<Rightarrow> nat" where
  "HASHTABLE_SIZE num_bits = 2 ^ num_bits"

definition hashtable_index :: "'pid env \<Rightarrow> hashtable_t \<Rightarrow> HANDLE \<Rightarrow> nat" where
  "hashtable_index env t key = hash_key env key mod HASHTABLE_SIZE (table_bits t)"

definition hashtable_init :: "nat \<Rightarrow> hashtable_t" where
  "hashtable_init num_bits = \<lparr>table_bits = num_bits, table = (\<lambda>i. [])\<rparr>"

definition hashtable_lookup :: "'pid env \<Rightarrow> hashtable_t \<Rightarrow> HANDLE \<Rightarrow> bool" where
  "hashtable_lookup env t key = (key \<in> set (table t (hashtable_index env t key)))"

definition hashtable_add :: "'pid env \<Rightarrow> hashtable_t \<Rightarrow> HANDLE \<Rightarrow> bool \<times> hashtable_t" where
  "hashtable_add env t key =
     (if hashtable_lookup env t key then (False, t)
      else (True, t\<lparr>table := (table t)(hashtable_index env t key :=
                                  key # table t (hashtable_index env t key))\<rparr>))"

definition hashtable_remove :: "'pid env \<Rightarrow> hashtable_t \<Rightarrow> HANDLE \<Rightarrow> bool \<times> hashtable_t" where
  "hashtable_remove env t key =
     (if hashtable_lookup env t key
      then (True, t\<lparr>table := (table t)(hashtable_index env t key :=
                                  removeAll key (table t (hashtable_index env t key)))\<rparr>)
      else (False, t))"

definition hashtable_delete :: "hashtable_t \<Rightarrow> hashtable_t" where
  "hashtable_delete t = t\<lparr>table := (\<lambda>i. [])\<rparr>"

text \<open>
  \<^verbatim>\<open>cb_lock\<close> is a pointer to a DynamoRIO mutex; the model keeps what the pointer
  refers to. Mutual exclusion itself is not modelled: the embedding is sequential, and
  \<^verbatim>\<open>dr_mutex_lock\<close>/\<^verbatim>\<open>dr_mutex_unlock\<close> pairs leave the state as it is.
\<close>

datatype mutex = Mutex_NULL | Mutex_live | Mutex_destroyed

text \<open>
  The state: the static variables of drx.c (lines 78, 86, 420, 421, 456 to 466, 583,
  928), the \<^verbatim>\<open>cls_soft_t\<close> of the current callback context (the slot that
  \<^verbatim>\<open>drmgr_get_cls_field\<close> returns; nesting of contexts is drmgr's and is not
  modelled), the application's memory, and the events so far. \<^verbatim>\<open>cb_list\<close> is the
  linked list from its head. \<^verbatim>\<open>drx_init\<close>, which only counts and starts drmgr, is not
  modelled: a state says how often it has been called in \<open>drx_init_count\<close>.
\<close>

record 'pid drx_state =
  drx_init_count :: int32
  soft_kills_enabled :: bool
  soft_kills_init_count :: int32
  cb_list :: "cb_ptr list"
  cb_lock :: mutex
  sysnum_TerminateProcess :: int32
  sysnum_TerminateJobObject :: int32
  sysnum_SetInformationJobObject :: int32
  sysnum_Close :: int32
  job_table :: hashtable_t
  cls_idx_soft :: int32
  ntdll :: HANDLE
  cls :: cls_soft_t
  app_mem :: memory
  trace :: "'pid event list"

definition emit :: "'pid event \<Rightarrow> 'pid drx_state \<Rightarrow> 'pid drx_state" where
  "emit ev s = s\<lparr>trace := trace s @ [ev]\<rparr>"

definition dr_syscall_set_result :: "reg_t \<Rightarrow> 'pid drx_state \<Rightarrow> 'pid drx_state" where
  "dr_syscall_set_result v s = emit (Ev_set_result v) s"

section \<open>Callback registry\<close>

text \<open>
  \<^verbatim>\<open>soft_kills_invoke_cbs\<close>, lines 423 to 435. The loop walks the list from its head;
  \<open>skip\<close> is the C variable.
\<close>

fun invoke_cbs_loop ::
  "'pid env \<Rightarrow> 'pid \<Rightarrow> int32 \<Rightarrow> cb_ptr list \<Rightarrow> bool \<Rightarrow> 'pid drx_state \<Rightarrow> bool \<times> 'pid drx_state" where
  "invoke_cbs_loop env pid exit_code [] skip s = (skip, s)"
| "invoke_cbs_loop env pid exit_code (e # next) skip s =
     invoke_cbs_loop env pid exit_code next
       (cb_fun env e pid exit_code \<or> skip) (emit (Ev_cb e pid exit_code) s)"

definition soft_kills_invoke_cbs ::
  "'pid env \<Rightarrow> 'pid \<Rightarrow> int32 \<Rightarrow> 'pid drx_state \<Rightarrow> bool \<times> 'pid drx_state" where
  "soft_kills_invoke_cbs env pid exit_code s =
     invoke_cbs_loop env pid exit_code (cb_list s) False s"

text \<open>
  \<^verbatim>\<open>drx_register_soft_kills\<close>, lines 922 to 943, is defined after
  \<^verbatim>\<open>soft_kills_init\<close> below.
\<close>

section \<open>Job queries (WINDOWS)\<close>

text \<open>
  \<^verbatim>\<open>num_job_object_pids\<close>, lines 519 to 530; the \<^verbatim>\<open>ssize_t\<close> result is an
  integer (64-bit \<^verbatim>\<open>ssize_t\<close> holds every \<^verbatim>\<open>DWORD\<close>).
\<close>

definition num_job_object_pids :: "'pid env \<Rightarrow> HANDLE \<Rightarrow> int" where
  "num_job_object_pids env job =
     (let (res, NumberOfAssignedProcesses) = NtQueryInformationJobObject_num env job
      in if NT_SUCCESS res \<or> res = STATUS_BUFFER_OVERFLOW
         then uint NumberOfAssignedProcesses else - 1)"

text \<open>
  \<^verbatim>\<open>get_job_object_pids\<close>, lines 532 to 539: the boolean result and the filled
  \<^verbatim>\<open>list->ProcessIdList\<close> together, as an option.
\<close>

definition get_job_object_pids :: "'pid env \<Rightarrow> HANDLE \<Rightarrow> nat \<Rightarrow> (nat \<Rightarrow> 'pid) option" where
  "get_job_object_pids env job n =
     (let (res, ProcessIdList) = NtQueryInformationJobObject_list env job n
      in if NT_SUCCESS res then Some ProcessIdList else None)"


text \<open>
  \<^verbatim>\<open>soft_kills_handle_job_termination\<close>, lines 609 to 636. The loop body for one
  index \<open>i\<close>, then the loop over \<open>i = 0, ..., num_jobs - 1\<close>.
\<close>

definition job_termination_body ::
  "'pid env \<Rightarrow> int32 \<Rightarrow> 'pid \<Rightarrow> 'pid drx_state \<Rightarrow> 'pid drx_state" where
  "job_termination_body env exit_code pid s =
     (let (skip, s1) = soft_kills_invoke_cbs env pid exit_code s
      in if \<not> skip then
           (let phandle = dr_convert_pid_to_handle env pid
            in if phandle \<noteq> INVALID_HANDLE_VALUE
               then emit (Ev_NtTerminateProcess phandle exit_code) s1
               else s1)
         else s1)"

fun job_termination_loop ::
  "'pid env \<Rightarrow> int32 \<Rightarrow> (nat \<Rightarrow> 'pid) \<Rightarrow> nat list \<Rightarrow> 'pid drx_state \<Rightarrow> 'pid drx_state" where
  "job_termination_loop env exit_code ProcessIdList [] s = s"
| "job_termination_loop env exit_code ProcessIdList (i # rest) s =
     job_termination_loop env exit_code ProcessIdList rest
       (job_termination_body env exit_code (ProcessIdList i) s)"

definition soft_kills_handle_job_termination ::
  "'pid env \<Rightarrow> HANDLE \<Rightarrow> int32 \<Rightarrow> 'pid drx_state \<Rightarrow> 'pid drx_state" where
  "soft_kills_handle_job_termination env job exit_code s =
     (let num_jobs = num_job_object_pids env job
      in if 0 < num_jobs then
           (case get_job_object_pids env job (nat num_jobs) of
              Some ProcessIdList \<Rightarrow>
                job_termination_loop env exit_code ProcessIdList [0..<nat num_jobs] s
            | None \<Rightarrow> s)
         else s)"

text \<open>\<^verbatim>\<open>soft_kills_handle_close\<close>, lines 638 to 642.\<close>

definition soft_kills_handle_close ::
  "'pid env \<Rightarrow> HANDLE \<Rightarrow> int32 \<Rightarrow> 'pid drx_state \<Rightarrow> 'pid drx_state" where
  "soft_kills_handle_close env job exit_code s =
     soft_kills_handle_job_termination env job exit_code s"

section \<open>Syscall mediation\<close>

text \<open>
  \<^verbatim>\<open>soft_kills_filter_syscall\<close>, lines 644 to 651 and 769 to 773.
\<close>

definition soft_kills_filter_syscall_WINDOWS :: "int32 \<Rightarrow> 'pid drx_state \<Rightarrow> bool" where
  "soft_kills_filter_syscall_WINDOWS sysnum s =
     (sysnum = sysnum_TerminateProcess s \<or> sysnum = sysnum_TerminateJobObject s \<or>
      sysnum = sysnum_SetInformationJobObject s \<or> sysnum = sysnum_Close s)"

definition soft_kills_filter_syscall_UNIX :: "'pid env \<Rightarrow> int32 \<Rightarrow> bool" where
  "soft_kills_filter_syscall_UNIX env sysnum = (sysnum = SYS_kill env)"

text \<open>
  \<^verbatim>\<open>soft_kills_pre_syscall\<close> for WINDOWS, lines 654 to 749. \<open>param i\<close> is
  \<^verbatim>\<open>dr_syscall_get_param(drcontext, i)\<close>; the result is the C return value (whether
  to execute the system call) with the new state. The third branch is a definition
  of its own to keep the nesting readable.
\<close>

definition pre_SetInformationJobObject ::
  "'pid env \<Rightarrow> (nat \<Rightarrow> reg_t) \<Rightarrow> 'pid drx_state \<Rightarrow> 'pid drx_state" where
  "pre_SetInformationJobObject env param s =
     (let job = param 0;
          class = (ucast (param 1) :: 32 word);
          sz = (ucast (param 3) :: ULONG)
      in if class = JobObjectExtendedLimitInformation \<and>
            sizeof_JOBOBJECT_EXTENDED_LIMIT_INFORMATION \<le> sz
         then
           (case dr_safe_read_info (app_mem s) (param 2) of
              None \<Rightarrow> s
            | Some LimitFlags \<Rightarrow>
                if TEST JOB_OBJECT_LIMIT_KILL_ON_JOB_CLOSE LimitFlags then
                  (let ptr = param 2;
                       new_flags = LimitFlags AND NOT JOB_OBJECT_LIMIT_KILL_ON_JOB_CLOSE;
                       s1 = s\<lparr>cls := \<lparr>job_limit_flags_orig = LimitFlags,
                                      job_limit_flags_loc = ptr + offsetof_LimitFlags\<rparr>\<rparr>;
                       (written, m) =
                          dr_safe_write (app_mem s1) (job_limit_flags_loc (cls s1)) new_flags;
                       s2 = s1\<lparr>app_mem := m\<rparr>;
                       (isnew, t) = hashtable_add env (job_table s2) job
                   in s2\<lparr>job_table := t\<rparr>)
                else s)
         else s)"

definition soft_kills_pre_syscall_WINDOWS ::
  "'pid env \<Rightarrow> (nat \<Rightarrow> reg_t) \<Rightarrow> int32 \<Rightarrow> 'pid drx_state \<Rightarrow> bool \<times> 'pid drx_state" where
  "soft_kills_pre_syscall_WINDOWS env param sysnum s =
     (if sysnum = sysnum_TerminateProcess s then
        (let proc = param 0;
             pid = dr_convert_handle_to_pid env proc
         in if pid \<noteq> INVALID_PROCESS_ID env \<and> pid \<noteq> dr_get_process_id env then
              (let exit_code = (ucast (param 1) :: int32);
                   (skip, s1) = soft_kills_invoke_cbs env pid exit_code s
               in if skip then (False, dr_syscall_set_result 0 s1) else (True, s1))
            else (True, s))
      else if sysnum = sysnum_TerminateJobObject s then
        (let job = param 0;
             exit_code = (ucast (param 1) :: NTSTATUS);
             s1 = soft_kills_handle_job_termination env job exit_code s
         in (False, dr_syscall_set_result 0 s1))
      else if sysnum = sysnum_SetInformationJobObject s then
        (True, pre_SetInformationJobObject env param s)
      else if sysnum = sysnum_Close s then
        (let handle = param 0;
             (found, t) = hashtable_remove env (job_table s) handle;
             s1 = s\<lparr>job_table := t\<rparr>
         in if found then (True, soft_kills_handle_close env handle 0 s1) else (True, s1))
      else (True, s))"

text \<open>\<^verbatim>\<open>soft_kills_post_syscall\<close> for WINDOWS, lines 751 to 766.\<close>

definition soft_kills_post_syscall_WINDOWS :: "int32 \<Rightarrow> 'pid drx_state \<Rightarrow> 'pid drx_state" where
  "soft_kills_post_syscall_WINDOWS sysnum s =
     (if sysnum = sysnum_SetInformationJobObject s then
        (if job_limit_flags_loc (cls s) \<noteq> 0 then
           (let (written, m) = dr_safe_write (app_mem s) (job_limit_flags_loc (cls s))
                                 (job_limit_flags_orig (cls s))
            in s\<lparr>app_mem := m, cls := (cls s)\<lparr>job_limit_flags_loc := 0\<rparr>\<rparr>)
         else s)
      else s)"

text \<open>
  \<^verbatim>\<open>soft_kills_pre_syscall\<close> and \<^verbatim>\<open>soft_kills_post_syscall\<close> for UNIX, lines 775
  to 799. \<^verbatim>\<open>sig << 8\<close> is \<open>push_bit 8 sig\<close>.
\<close>

definition soft_kills_pre_syscall_UNIX ::
  "'pid env \<Rightarrow> (nat \<Rightarrow> reg_t) \<Rightarrow> int32 \<Rightarrow> 'pid drx_state \<Rightarrow> bool \<times> 'pid drx_state" where
  "soft_kills_pre_syscall_UNIX env param sysnum s =
     (if sysnum = SYS_kill env then
        (let pid = pid_of_reg env (param 0);
             sig = (ucast (param 1) :: int32)
         in if sig = SIGKILL \<and> pid \<noteq> INVALID_PROCESS_ID env \<and> pid \<noteq> dr_get_process_id env
            then
              (let exit_code = push_bit 8 sig;
                   (skip, s1) = soft_kills_invoke_cbs env pid exit_code s
               in if skip then (False, dr_syscall_set_result 0 s1) else (True, s1))
            else (True, s))
      else (True, s))"

definition soft_kills_post_syscall_UNIX :: "int32 \<Rightarrow> 'pid drx_state \<Rightarrow> 'pid drx_state" where
  "soft_kills_post_syscall_UNIX sysnum s = s"

definition soft_kills_pre_syscall ::
  "platform \<Rightarrow> 'pid env \<Rightarrow> (nat \<Rightarrow> reg_t) \<Rightarrow> int32 \<Rightarrow> 'pid drx_state \<Rightarrow> bool \<times> 'pid drx_state" where
  "soft_kills_pre_syscall plat env param sysnum s =
     (case plat of
        WINDOWS \<Rightarrow> soft_kills_pre_syscall_WINDOWS env param sysnum s
      | UNIX \<Rightarrow> soft_kills_pre_syscall_UNIX env param sysnum s)"

definition soft_kills_post_syscall ::
  "platform \<Rightarrow> int32 \<Rightarrow> 'pid drx_state \<Rightarrow> 'pid drx_state" where
  "soft_kills_post_syscall plat sysnum s =
     (case plat of
        WINDOWS \<Rightarrow> soft_kills_post_syscall_WINDOWS sysnum s
      | UNIX \<Rightarrow> soft_kills_post_syscall_UNIX sysnum s)"

section \<open>Subsystem lifecycle\<close>

text \<open>
  A call of \<^verbatim>\<open>dr_syscall_intercept_natively\<close>: when DynamoRIO accepts it, the hook
  it installs is an event.
\<close>

definition call_intercept_natively ::
  "'pid env \<Rightarrow> string \<Rightarrow> int32 \<Rightarrow> nat \<Rightarrow> nat \<Rightarrow> 'pid drx_state \<Rightarrow> bool \<times> 'pid drx_state" where
  "call_intercept_natively env name sysnum num_params wow64_idx s =
     (if dr_syscall_intercept_natively env name sysnum num_params wow64_idx
      then (True, emit (Ev_intercept_natively name sysnum) s)
      else (False, s))"

text \<open>
  \<^verbatim>\<open>soft_kills_get_sysnum\<close>, lines 580 to 607; \<open>ntdll\<close> is the function's static
  variable.
\<close>

definition soft_kills_get_sysnum ::
  "'pid env \<Rightarrow> string \<Rightarrow> nat \<Rightarrow> nat \<Rightarrow> 'pid drx_state \<Rightarrow> int32 \<times> 'pid drx_state" where
  "soft_kills_get_sysnum env name num_params wow64_idx s =
     (case (if ntdll s = 0 then
              (case dr_lookup_module_by_name env ''ntdll.dll'' of
                 None \<Rightarrow> None
               | Some h \<Rightarrow> Some (s\<lparr>ntdll := h\<rparr>))
            else Some s) of
        None \<Rightarrow> (- 1, s)
      | Some s1 \<Rightarrow>
          (let wrapper = dr_get_proc_address env (ntdll s1) name
           in if wrapper = 0 then (- 1, s1)
              else
                (let sysnum = drmgr_decode_sysnum_from_wrapper env wrapper
                 in if sysnum = - 1 then (- 1, s1)
                    else
                      (let (ok, s2) =
                             call_intercept_natively env name sysnum num_params wow64_idx s1
                       in if \<not> ok then (- 1, s2) else (sysnum, s2)))))"

text \<open>
  \<^verbatim>\<open>soft_kills_init\<close>, lines 803 to 880. The part after \<^verbatim>\<open>#endif\<close> (lines 874 to
  879) is shared by both platforms.
\<close>

definition soft_kills_init_register ::
  "'pid env \<Rightarrow> 'pid drx_state \<Rightarrow> bool \<times> 'pid drx_state" where
  "soft_kills_init_register env s =
     (if \<not> drmgr_register_pre_syscall_event env then (False, s)
      else
        (let s1 = emit Ev_register_pre_syscall s
         in if \<not> drmgr_register_post_syscall_event env then (False, s1)
            else (True, emit Ev_register_filter_syscall (emit Ev_register_post_syscall s1))))"

definition soft_kills_init_UNIX :: "'pid env \<Rightarrow> 'pid drx_state \<Rightarrow> bool \<times> 'pid drx_state" where
  "soft_kills_init_UNIX env s =
     soft_kills_init_register env (s\<lparr>soft_kills_enabled := True, cb_lock := Mutex_live\<rparr>)"

definition soft_kills_init_WINDOWS :: "'pid env \<Rightarrow> 'pid drx_state \<Rightarrow> bool \<times> 'pid drx_state" where
  "soft_kills_init_WINDOWS env s =
     (let s0 = s\<lparr>soft_kills_enabled := True, cb_lock := Mutex_live,
                 job_table := hashtable_init JOB_TABLE_HASH_BITS\<rparr>;
          (n1, s1) = soft_kills_get_sysnum env ''NtTerminateProcess'' 2 0 s0;
          s1 = s1\<lparr>sysnum_TerminateProcess := n1\<rparr>
      in if n1 = - 1 then (False, s1)
         else
      (let (n2, s2) = soft_kills_get_sysnum env ''NtTerminateJobObject'' 2 0 s1;
           s2 = s2\<lparr>sysnum_TerminateJobObject := n2\<rparr>
       in if n2 = - 1 then (False, s2)
          else
      (let (n3, s3) = soft_kills_get_sysnum env ''NtSetInformationJobObject'' 4 7 s2;
           s3 = s3\<lparr>sysnum_SetInformationJobObject := n3\<rparr>
       in if n3 = - 1 then (False, s3)
          else
      (let (n4, s4) = soft_kills_get_sysnum env ''NtClose'' 1 0 s3;
           s4 = s4\<lparr>sysnum_Close := n4\<rparr>
       in if n4 = - 1 then (False, s4)
          else
      (let idx = drmgr_register_cls_field env;
           s5 = (if idx = - 1 then s4\<lparr>cls_idx_soft := idx\<rparr>
                 else emit Ev_register_cls_field (s4\<lparr>cls_idx_soft := idx\<rparr>))
       in if idx = - 1 then (False, s5)
          else
      (let s6 = snd (call_intercept_natively env ''NtTerminateProcess''
                       (sysnum_TerminateProcess s5) 2 0 s5);
           s7 = snd (call_intercept_natively env ''NtTerminateJobObject''
                       (sysnum_TerminateJobObject s6) 2 0 s6);
           s8 = snd (call_intercept_natively env ''NtSetInformationJobObject''
                       (sysnum_SetInformationJobObject s7) 4 7 s7);
           s9 = snd (call_intercept_natively env ''NtClose'' (sysnum_Close s8) 1 0 s8)
       in soft_kills_init_register env s9))))))"

definition soft_kills_init ::
  "platform \<Rightarrow> 'pid env \<Rightarrow> 'pid drx_state \<Rightarrow> bool \<times> 'pid drx_state" where
  "soft_kills_init plat env s =
     (case plat of
        WINDOWS \<Rightarrow> soft_kills_init_WINDOWS env s
      | UNIX \<Rightarrow> soft_kills_init_UNIX env s)"

text \<open>
  \<^verbatim>\<open>drx_register_soft_kills\<close>, lines 922 to 943: \<open>count\<close> is the value the atomic
  increment returns; the new entry becomes the head of \<^verbatim>\<open>cb_list\<close>.
\<close>

definition drx_register_soft_kills ::
  "platform \<Rightarrow> 'pid env \<Rightarrow> cb_ptr \<Rightarrow> 'pid drx_state \<Rightarrow> bool \<times> 'pid drx_state" where
  "drx_register_soft_kills plat env event_cb s =
     (let count = soft_kills_init_count s + 1;
          s1 = s\<lparr>soft_kills_init_count := count\<rparr>;
          s2 = (if count = 1 then snd (soft_kills_init plat env s1) else s1)
      in (True, s2\<lparr>cb_list := event_cb # cb_list s2\<rparr>))"



fun exit_free_cbs :: "cb_ptr list \<Rightarrow> cb_ptr list" where
  "exit_free_cbs [] = []"
| "exit_free_cbs (e # next) = exit_free_cbs next"





section \<open>Closed forms used in the proofs\<close>

text \<open>
  The events of one iteration of the loop at lines 620 to 632, for a member \<open>pid\<close>
  and the subscribers \<open>cbs\<close>: every callback once, then the emulated kill unless a
  callback asked to skip or the pid has no handle.
\<close>

definition member_events ::
  "'pid env \<Rightarrow> cb_ptr list \<Rightarrow> int32 \<Rightarrow> 'pid \<Rightarrow> 'pid event list" where
  "member_events env cbs exit_code pid =
     map (\<lambda>cb. Ev_cb cb pid exit_code) cbs @
     (if (\<exists>cb\<in>set cbs. cb_fun env cb pid exit_code) \<or>
         dr_convert_pid_to_handle env pid = INVALID_HANDLE_VALUE
      then []
      else [Ev_NtTerminateProcess (dr_convert_pid_to_handle env pid) exit_code])"

text \<open>The events of \<^verbatim>\<open>soft_kills_handle_job_termination\<close> for one job.\<close>

definition job_events ::
  "'pid env \<Rightarrow> cb_ptr list \<Rightarrow> HANDLE \<Rightarrow> int32 \<Rightarrow> 'pid event list" where
  "job_events env cbs job exit_code =
     (if 0 < num_job_object_pids env job then
        (case get_job_object_pids env job (nat (num_job_object_pids env job)) of
           Some ProcessIdList \<Rightarrow>
             concat (map (\<lambda>i. member_events env cbs exit_code (ProcessIdList i))
                       [0..<nat (num_job_object_pids env job)])
         | None \<Rightarrow> [])
      else [])"

text \<open>
  \<^verbatim>\<open>soft_kills_get_sysnum\<close> in closed form. The module handle it works with is the
  cached one, or the one looked up when nothing is cached (\<open>effective_ntdll\<close>);
  afterwards the cache holds that handle (\<open>cached_ntdll\<close>); the number returned is
  \<open>resolve_sysnum\<close>, which is -1 when any of the four steps of the function fails.
\<close>

definition effective_ntdll :: "'pid env \<Rightarrow> HANDLE \<Rightarrow> HANDLE option" where
  "effective_ntdll env h0 =
     (if h0 = 0 then dr_lookup_module_by_name env ''ntdll.dll'' else Some h0)"

definition cached_ntdll :: "'pid env \<Rightarrow> HANDLE \<Rightarrow> HANDLE" where
  "cached_ntdll env h0 = (case effective_ntdll env h0 of None \<Rightarrow> h0 | Some h \<Rightarrow> h)"

definition resolve_sysnum :: "'pid env \<Rightarrow> HANDLE option \<Rightarrow> string \<Rightarrow> nat \<Rightarrow> nat \<Rightarrow> int32" where
  "resolve_sysnum env m name num_params wow64_idx =
     (case m of
        None \<Rightarrow> - 1
      | Some h \<Rightarrow>
          (let wrapper = dr_get_proc_address env h name
           in if wrapper = 0 then - 1
              else
                (let sysnum = drmgr_decode_sysnum_from_wrapper env wrapper
                 in if sysnum = - 1 then - 1
                    else if \<not> dr_syscall_intercept_natively env name sysnum num_params wow64_idx
                         then - 1 else sysnum)))"

section \<open>Example inputs\<close>

text \<open>
  The state at program start: every static variable of drx.c is zero.
\<close>

definition initial_state :: "memory \<Rightarrow> 'pid drx_state" where
  "initial_state m =
     \<lparr>drx_init_count = 0, soft_kills_enabled = False, soft_kills_init_count = 0,
      cb_list = [], cb_lock = Mutex_NULL,
      sysnum_TerminateProcess = 0, sysnum_TerminateJobObject = 0,
      sysnum_SetInformationJobObject = 0, sysnum_Close = 0,
      job_table = \<lparr>table_bits = 0, table = (\<lambda>i. [])\<rparr>,
      cls_idx_soft = 0, ntdll = 0,
      cls = \<lparr>job_limit_flags_orig = 0, job_limit_flags_loc = 0\<rparr>,
      app_mem = m, trace = []\<rparr>"

text \<open>
  An application memory with two job-limit structures, at 0x7000 (writable) and at
  0x9000 (read-only), both with \<^verbatim>\<open>LimitFlags = 0x2008\<close>, which contains
  \<^verbatim>\<open>JOB_OBJECT_LIMIT_KILL_ON_JOB_CLOSE\<close>.
\<close>

definition ex_mem :: memory where
  "ex_mem = \<lparr>contents = (\<lambda>p. if p = 0x7010 \<or> p = 0x9010 then 0x2008 else 0),
             readable = (\<lambda>p. p = 0x7000 \<or> p = 0x9000),
             writable = (\<lambda>p. p = 0x7010)\<rparr>"

text \<open>
  An environment with process ids as natural numbers. The current process is 100;
  handles 0x44 and 0x48 are processes 202 and 201; process 204 cannot be opened.
  Callback 2 asks to skip the kill of process 202, callback 1 never does. Job 0x50
  has members 201, 202, 203; job 0x54 has the one member 204; the member list of job
  0x58 cannot be read; job 0x5c is empty; every other handle is not a job.
\<close>

definition ex_env :: "nat env" where
  "ex_env =
     \<lparr>INVALID_PROCESS_ID = 4294967295,
      dr_get_process_id = 100,
      pid_of_reg = unat,
      dr_convert_handle_to_pid =
        (\<lambda>h. if h = 0x44 then 202 else if h = 0x48 then 201
              else if h = - 1 then 100 else 4294967295),
      dr_convert_pid_to_handle =
        (\<lambda>p. if p = 204 then INVALID_HANDLE_VALUE else word_of_nat (4 * p)),
      SYS_kill = 62,
      cb_fun = (\<lambda>cb pid exit_code. cb = 2 \<and> pid = 202),
      NtQueryInformationJobObject_num =
        (\<lambda>job. if job = 0x50 then (STATUS_BUFFER_OVERFLOW, 3) else if job = 0x54 then (0, 1)
                else if job = 0x58 then (0, 2) else if job = 0x5c then (0, 0)
                else (0xC0000008, 0)),
      NtQueryInformationJobObject_list =
        (\<lambda>job n. if job = 0x50 then (0, \<lambda>i. 201 + i)
                  else if job = 0x54 then (0, \<lambda>i. 204 + i)
                  else (0xC0000004, \<lambda>i. 0)),
      NtQueryInformationProcess_basic = (0, 48, 7),
      hash_key = unat,
      dr_lookup_module_by_name = (\<lambda>name. if name = ''ntdll.dll'' then Some 0x7ff0 else None),
      dr_get_proc_address =
        (\<lambda>h name. if name = ''NtTerminateProcess'' then 0x1000
                   else if name = ''NtTerminateJobObject'' then 0x1100
                   else if name = ''NtSetInformationJobObject'' then 0x1200
                   else if name = ''NtClose'' then 0x1300 else 0),
      drmgr_decode_sysnum_from_wrapper =
        (\<lambda>pc. if pc = 0x1000 then 0x2c else if pc = 0x1100 then 0x18d
               else if pc = 0x1200 then 0x190 else if pc = 0x1300 then 0xf else - 1),
      dr_syscall_intercept_natively = (\<lambda>name sysnum num_params wow64_idx. True),
      drmgr_register_cls_field = 0,
      drmgr_register_pre_syscall_event = True,
      drmgr_register_post_syscall_event = True\<rparr>"

text \<open>
  The state after \<^verbatim>\<open>drx_init\<close> and the registration, on WINDOWS with \<open>ex_env\<close>
  and \<open>ex_mem\<close>, of the callbacks \<open>cbs\<close> (last registered first): lemmas
  \<open>register_first_ex\<close> and \<open>register_second_ex\<close> below compute it with
  \<^verbatim>\<open>drx_register_soft_kills\<close>. Its trace holds the events of the activation.
\<close>

definition ex_activated :: "cb_ptr list \<Rightarrow> nat drx_state" where
  "ex_activated cbs =
      \<lparr>drx_init_count = 1, soft_kills_enabled = True,
       soft_kills_init_count = word_of_nat (length cbs),
       cb_list = cbs, cb_lock = Mutex_live,
       sysnum_TerminateProcess = 0x2c, sysnum_TerminateJobObject = 0x18d,
       sysnum_SetInformationJobObject = 0x190, sysnum_Close = 0xf,
       job_table = hashtable_init JOB_TABLE_HASH_BITS,
       cls_idx_soft = 0, ntdll = 0x7ff0,
       cls = \<lparr>job_limit_flags_orig = 0, job_limit_flags_loc = 0\<rparr>,
       app_mem = ex_mem,
       trace = [Ev_intercept_natively ''NtTerminateProcess'' 0x2c,
                Ev_intercept_natively ''NtTerminateJobObject'' 0x18d,
                Ev_intercept_natively ''NtSetInformationJobObject'' 0x190,
                Ev_intercept_natively ''NtClose'' 0xf,
                Ev_register_cls_field,
                Ev_intercept_natively ''NtTerminateProcess'' 0x2c,
                Ev_intercept_natively ''NtTerminateJobObject'' 0x18d,
                Ev_intercept_natively ''NtSetInformationJobObject'' 0x190,
                Ev_intercept_natively ''NtClose'' 0xf,
                Ev_register_pre_syscall, Ev_register_post_syscall,
                Ev_register_filter_syscall]\<rparr>"

text \<open>The parameters of a system call, \<open>param 0\<close> to \<open>param 3\<close>.\<close>

definition ex_param :: "reg_t \<Rightarrow> reg_t \<Rightarrow> reg_t \<Rightarrow> reg_t \<Rightarrow> nat \<Rightarrow> reg_t" where
  "ex_param a0 a1 a2 a3 i = (if i = 0 then a0 else if i = 1 then a1 else if i = 2 then a2 else a3)"

text \<open>
  The state after the pre- and post-phase of
  \<^verbatim>\<open>NtSetInformationJobObject(0x50, JobObjectExtendedLimitInformation, 0x7000, 144)\<close>
  on \<open>ex_activated [2, 1]\<close>: job handle 0x50 is tracked.
\<close>

definition ex_tracked :: "nat drx_state" where
  "ex_tracked =
     soft_kills_post_syscall WINDOWS 0x190
       (snd (soft_kills_pre_syscall WINDOWS ex_env (ex_param 0x50 9 0x7000 144) 0x190
               (ex_activated [2, 1])))"

text \<open>
  Two environments in which activation fails: in the first the wrapper of
  \<^verbatim>\<open>NtTerminateJobObject\<close> (and of every syscall but \<^verbatim>\<open>NtTerminateProcess\<close>)
  cannot be found in ntdll; in the second drmgr refuses the post-syscall event.
\<close>

definition ex_env_unresolved :: "nat env" where
  "ex_env_unresolved =
     ex_env\<lparr>dr_get_proc_address :=
               (\<lambda>h name. if name = ''NtTerminateProcess'' then 0x1000 else 0)\<rparr>"

definition ex_env_unregistered :: "nat env" where
  "ex_env_unregistered = ex_env\<lparr>drmgr_register_post_syscall_event := False\<rparr>"

section \<open>Lemmas on the callback registry\<close>

lemma trace_emit [simp]: "trace (emit ev s) = trace s @ [ev]"
  by (simp add: emit_def)

lemma cb_list_emit [simp]: "cb_list (emit ev s) = cb_list s"
  by (simp add: emit_def)

lemma invoke_cbs_loop_eq:
  "invoke_cbs_loop env pid ec cbs skip s =
     (skip \<or> (\<exists>e\<in>set cbs. cb_fun env e pid ec),
      s\<lparr>trace := trace s @ map (\<lambda>e. Ev_cb e pid ec) cbs\<rparr>)"
proof (induction cbs arbitrary: skip s)
  case Nil
  show ?case by simp
next
  case (Cons e cbs)
  show ?case by (auto simp: Cons.IH emit_def)
qed

lemma soft_kills_invoke_cbs_eq:
  "soft_kills_invoke_cbs env pid ec s =
     ((\<exists>e\<in>set (cb_list s). cb_fun env e pid ec),
      s\<lparr>trace := trace s @ map (\<lambda>e. Ev_cb e pid ec) (cb_list s)\<rparr>)"
  by (simp add: soft_kills_invoke_cbs_def invoke_cbs_loop_eq)

lemma cb_list_call_intercept [simp]:
  "cb_list (snd (call_intercept_natively env name n np w s)) = cb_list s"
  by (simp add: call_intercept_natively_def)

lemma cb_list_get_sysnum [simp]:
  "cb_list (snd (soft_kills_get_sysnum env name np w s)) = cb_list s"
  by (auto simp: soft_kills_get_sysnum_def Let_def call_intercept_natively_def
        split: option.splits prod.splits)

lemma cb_list_init_register [simp]:
  "cb_list (snd (soft_kills_init_register env s)) = cb_list s"
  by (simp add: soft_kills_init_register_def Let_def)

lemma cb_list_init_WINDOWS [simp]:
  "cb_list (snd (soft_kills_init_WINDOWS env s)) = cb_list s"
  by (simp add: soft_kills_init_WINDOWS_def Let_def split_def)

lemma cb_list_init [simp]: "cb_list (snd (soft_kills_init plat env s)) = cb_list s"
  by (cases plat) (simp_all add: soft_kills_init_def soft_kills_init_UNIX_def)

lemma cb_list_register [simp]:
  "cb_list (snd (drx_register_soft_kills plat env cb s)) = cb # cb_list s"
  by (simp add: drx_register_soft_kills_def Let_def)

lemma cb_list_fold_register:
  "cb_list (fold (\<lambda>cb s. snd (drx_register_soft_kills plat env cb s)) cbs s) =
     rev cbs @ cb_list s"
  by (induction cbs arbitrary: s) simp_all

lemma init_count_call_intercept [simp]:
  "soft_kills_init_count (snd (call_intercept_natively env name n np w s)) =
     soft_kills_init_count s"
  by (simp add: call_intercept_natively_def emit_def)

lemma init_count_get_sysnum [simp]:
  "soft_kills_init_count (snd (soft_kills_get_sysnum env name np w s)) =
     soft_kills_init_count s"
  by (auto simp: soft_kills_get_sysnum_def Let_def call_intercept_natively_def emit_def
        split: option.splits prod.splits)

lemma init_count_init_register [simp]:
  "soft_kills_init_count (snd (soft_kills_init_register env s)) = soft_kills_init_count s"
  by (simp add: soft_kills_init_register_def Let_def emit_def)

lemma init_count_init [simp]:
  "soft_kills_init_count (snd (soft_kills_init plat env s)) = soft_kills_init_count s"
  by (cases plat)
     (simp_all add: soft_kills_init_def soft_kills_init_UNIX_def soft_kills_init_WINDOWS_def
        Let_def split_def emit_def)

lemma init_count_register [simp]:
  "soft_kills_init_count (snd (drx_register_soft_kills plat env cb s)) =
     soft_kills_init_count s + 1"
  by (simp add: drx_register_soft_kills_def Let_def)

lemma ex_env_simps [simp]:
  "INVALID_PROCESS_ID ex_env = 4294967295"
  "dr_get_process_id ex_env = 100"
  "pid_of_reg ex_env = unat"
  "SYS_kill ex_env = 62"
  "cb_fun ex_env cb pid exit_code = (cb = 2 \<and> pid = 202)"
  "drmgr_register_pre_syscall_event ex_env = True"
  "drmgr_register_post_syscall_event ex_env = True"
  by (simp_all add: ex_env_def)

lemma initial_state_simps [simp]:
  "cb_list (initial_state m) = []"
  "trace (initial_state m) = []"
  "soft_kills_init_count (initial_state m) = 0"
  by (simp_all add: initial_state_def)

lemma trace_register_UNIX_ex:
  "trace (snd (drx_register_soft_kills UNIX ex_env cb s)) =
     (if soft_kills_init_count s + 1 = 1
      then trace s @ [Ev_register_pre_syscall, Ev_register_post_syscall,
                      Ev_register_filter_syscall]
      else trace s)"
  by (simp add: drx_register_soft_kills_def soft_kills_init_def
      soft_kills_init_UNIX_def soft_kills_init_register_def emit_def Let_def)

section \<open>Lemmas on job termination and the pre-syscall phase\<close>

lemma job_termination_body_eq:
  "job_termination_body env ec pid s =
     s\<lparr>trace := trace s @ member_events env (cb_list s) ec pid\<rparr>"
  by (simp add: job_termination_body_def soft_kills_invoke_cbs_eq member_events_def Let_def emit_def)

lemma job_termination_loop_eq:
  "job_termination_loop env ec buf idxs s =
     s\<lparr>trace := trace s @ concat (map (\<lambda>i. member_events env (cb_list s) ec (buf i)) idxs)\<rparr>"
  by (induction idxs arbitrary: s) (simp_all add: job_termination_body_eq)

lemma soft_kills_handle_job_termination_eq:
  "soft_kills_handle_job_termination env job ec s =
     s\<lparr>trace := trace s @ job_events env (cb_list s) job ec\<rparr>"
  by (simp add: soft_kills_handle_job_termination_def job_events_def Let_def
        job_termination_loop_eq split: option.splits)

lemma soft_kills_handle_close_eq:
  "soft_kills_handle_close env job ec s =
     s\<lparr>trace := trace s @ job_events env (cb_list s) job ec\<rparr>"
  by (simp add: soft_kills_handle_close_def soft_kills_handle_job_termination_eq)

lemma set_result_notin_member_events: "Ev_set_result v \<notin> set (member_events env cbs ec pid)"
  by (simp add: member_events_def image_iff)

lemma set_result_notin_job_events: "Ev_set_result v \<notin> set (job_events env cbs job ec)"
proof (cases "0 < num_job_object_pids env job")
  case False
  then show ?thesis by (simp add: job_events_def)
next
  case True
  show ?thesis
  proof (cases "get_job_object_pids env job (nat (num_job_object_pids env job))")
    case None
    with True show ?thesis by (simp add: job_events_def)
  next
    case (Some buf)
    with True show ?thesis
      by (simp add: job_events_def set_result_notin_member_events)
  qed
qed

lemma pre_TerminateProcess_eq:
  assumes "sysnum = sysnum_TerminateProcess s"
    and "dr_convert_handle_to_pid env (param 0) \<noteq> INVALID_PROCESS_ID env"
    and "dr_convert_handle_to_pid env (param 0) \<noteq> dr_get_process_id env"
  shows "soft_kills_pre_syscall_WINDOWS env param sysnum s =
     (let pid = dr_convert_handle_to_pid env (param 0);
          exit_code = ucast (param 1);
          calls = map (\<lambda>cb. Ev_cb cb pid exit_code) (cb_list s)
      in if \<exists>cb\<in>set (cb_list s). cb_fun env cb pid exit_code
         then (False, s\<lparr>trace := trace s @ calls @ [Ev_set_result 0]\<rparr>)
         else (True, s\<lparr>trace := trace s @ calls\<rparr>))"
  using assms
  by (simp add: soft_kills_pre_syscall_WINDOWS_def soft_kills_invoke_cbs_eq Let_def
        dr_syscall_set_result_def emit_def)

lemma pre_kill_eq:
  assumes "sysnum = SYS_kill env"
    and "ucast (param 1) = SIGKILL"
    and "pid_of_reg env (param 0) \<noteq> INVALID_PROCESS_ID env"
    and "pid_of_reg env (param 0) \<noteq> dr_get_process_id env"
  shows "soft_kills_pre_syscall_UNIX env param sysnum s =
     (let pid = pid_of_reg env (param 0);
          exit_code = push_bit 8 SIGKILL;
          calls = map (\<lambda>cb. Ev_cb cb pid exit_code) (cb_list s)
      in if \<exists>cb\<in>set (cb_list s). cb_fun env cb pid exit_code
         then (False, s\<lparr>trace := trace s @ calls @ [Ev_set_result 0]\<rparr>)
         else (True, s\<lparr>trace := trace s @ calls\<rparr>))"
  using assms
  by (simp add: soft_kills_pre_syscall_UNIX_def soft_kills_invoke_cbs_eq Let_def
        dr_syscall_set_result_def emit_def)

lemma pre_kill_unmediated:
  assumes "\<not> (sysnum = SYS_kill env \<and> ucast (param 1) = SIGKILL \<and>
              pid_of_reg env (param 0) \<noteq> INVALID_PROCESS_ID env \<and>
              pid_of_reg env (param 0) \<noteq> dr_get_process_id env)"
  shows "soft_kills_pre_syscall_UNIX env param sysnum s = (True, s)"
  using assms by (auto simp: soft_kills_pre_syscall_UNIX_def Let_def)

lemma pre_TerminateProcess_unmediated:
  assumes "sysnum = sysnum_TerminateProcess s"
    and "dr_convert_handle_to_pid env (param 0) = INVALID_PROCESS_ID env \<or>
         dr_convert_handle_to_pid env (param 0) = dr_get_process_id env"
  shows "soft_kills_pre_syscall_WINDOWS env param sysnum s = (True, s)"
  using assms by (auto simp: soft_kills_pre_syscall_WINDOWS_def Let_def)

lemma pre_TerminateJobObject_eq:
  assumes "sysnum = sysnum_TerminateJobObject s" and "sysnum \<noteq> sysnum_TerminateProcess s"
  shows "soft_kills_pre_syscall_WINDOWS env param sysnum s =
     (False, s\<lparr>trace := trace s @ job_events env (cb_list s) (param 0) (ucast (param 1)) @
                          [Ev_set_result 0]\<rparr>)"
  using assms
  by (simp add: soft_kills_pre_syscall_WINDOWS_def soft_kills_handle_job_termination_eq Let_def
        dr_syscall_set_result_def emit_def)

lemma pre_Close_eq:
  assumes "sysnum = sysnum_Close s" and "sysnum \<noteq> sysnum_TerminateProcess s"
    and "sysnum \<noteq> sysnum_TerminateJobObject s" and "sysnum \<noteq> sysnum_SetInformationJobObject s"
  shows "soft_kills_pre_syscall_WINDOWS env param sysnum s =
     (True,
      if hashtable_lookup env (job_table s) (param 0)
      then s\<lparr>job_table := snd (hashtable_remove env (job_table s) (param 0)),
             trace := trace s @ job_events env (cb_list s) (param 0) 0\<rparr>
      else s)"
  using assms
  by (simp add: soft_kills_pre_syscall_WINDOWS_def soft_kills_handle_close_eq Let_def
        hashtable_remove_def)

lemma trace_pre_SetInformationJobObject [simp]:
  "trace (pre_SetInformationJobObject env param s) = trace s"
  by (simp add: pre_SetInformationJobObject_def Let_def split_def split: option.splits)

lemma pre_WINDOWS_trace:
  "\<exists>evs. trace (snd (soft_kills_pre_syscall_WINDOWS env param sysnum s)) = trace s @ evs \<and>
         (\<forall>v. Ev_set_result v \<in> set evs \<longrightarrow> v = 0) \<and>
         (\<not> fst (soft_kills_pre_syscall_WINDOWS env param sysnum s) \<longrightarrow>
            evs \<noteq> [] \<and> last evs = Ev_set_result 0)"
proof -
  let ?r = "soft_kills_pre_syscall_WINDOWS env param sysnum s"
  consider (TP) "sysnum = sysnum_TerminateProcess s"
         | (TJ) "sysnum \<noteq> sysnum_TerminateProcess s" "sysnum = sysnum_TerminateJobObject s"
         | (SI) "sysnum \<noteq> sysnum_TerminateProcess s" "sysnum \<noteq> sysnum_TerminateJobObject s"
                "sysnum = sysnum_SetInformationJobObject s"
         | (CL) "sysnum \<noteq> sysnum_TerminateProcess s" "sysnum \<noteq> sysnum_TerminateJobObject s"
                "sysnum \<noteq> sysnum_SetInformationJobObject s" "sysnum = sysnum_Close s"
         | (NO) "sysnum \<noteq> sysnum_TerminateProcess s" "sysnum \<noteq> sysnum_TerminateJobObject s"
                "sysnum \<noteq> sysnum_SetInformationJobObject s" "sysnum \<noteq> sysnum_Close s"
    by blast
  then show ?thesis
  proof cases
    case TP
    show ?thesis
    proof (cases "dr_convert_handle_to_pid env (param 0) = INVALID_PROCESS_ID env \<or>
                  dr_convert_handle_to_pid env (param 0) = dr_get_process_id env")
      case True
      with TP have "?r = (True, s)" by (rule pre_TerminateProcess_unmediated)
      then show ?thesis by simp
    next
      case False
      with TP show ?thesis
        by (simp add: pre_TerminateProcess_eq Let_def image_iff)
    qed
  next
    case TJ
    then show ?thesis
      by (simp add: pre_TerminateJobObject_eq set_result_notin_job_events)
  next
    case SI
    then have "?r = (True, pre_SetInformationJobObject env param s)"
      by (simp add: soft_kills_pre_syscall_WINDOWS_def)
    then show ?thesis by simp
  next
    case CL
    then show ?thesis
      by (simp add: pre_Close_eq set_result_notin_job_events)
  next
    case NO
    then have "?r = (True, s)"
      by (simp add: soft_kills_pre_syscall_WINDOWS_def)
    then show ?thesis by simp
  qed
qed

lemma pre_UNIX_trace:
  "\<exists>evs. trace (snd (soft_kills_pre_syscall_UNIX env param sysnum s)) = trace s @ evs \<and>
         (\<forall>v. Ev_set_result v \<in> set evs \<longrightarrow> v = 0) \<and>
         (\<not> fst (soft_kills_pre_syscall_UNIX env param sysnum s) \<longrightarrow>
            evs \<noteq> [] \<and> last evs = Ev_set_result 0)"
proof (cases "sysnum = SYS_kill env \<and> ucast (param 1) = SIGKILL \<and>
              pid_of_reg env (param 0) \<noteq> INVALID_PROCESS_ID env \<and>
              pid_of_reg env (param 0) \<noteq> dr_get_process_id env")
  case True
  then show ?thesis by (simp add: pre_kill_eq Let_def image_iff)
next
  case False
  then have "soft_kills_pre_syscall_UNIX env param sysnum s = (True, s)"
    by (rule pre_kill_unmediated)
  then show ?thesis by simp
qed



section \<open>Lemmas on the handle table and the job configuration syscall\<close>

lemma hashtable_index_table_update [simp]:
  "hashtable_index env (t\<lparr>table := f\<rparr>) k = hashtable_index env t k"
  by (simp add: hashtable_index_def)

lemma lookup_after_remove [simp]:
  "\<not> hashtable_lookup env (snd (hashtable_remove env t k)) k"
  by (simp add: hashtable_remove_def hashtable_lookup_def)

lemma lookup_remove_other:
  "k' \<noteq> k \<Longrightarrow>
   hashtable_lookup env (snd (hashtable_remove env t k)) k' = hashtable_lookup env t k'"
  by (simp add: hashtable_remove_def hashtable_lookup_def)

lemma lookup_after_add [simp]:
  "hashtable_lookup env (snd (hashtable_add env t k)) k"
  by (simp add: hashtable_add_def hashtable_lookup_def)

lemma lookup_add_mono:
  "hashtable_lookup env t k' \<Longrightarrow> hashtable_lookup env (snd (hashtable_add env t k)) k'"
  by (auto simp: hashtable_add_def hashtable_lookup_def)

lemma job_table_handle_job_termination [simp]:
  "job_table (soft_kills_handle_job_termination env job ec s) = job_table s"
  by (simp add: soft_kills_handle_job_termination_eq)

lemma TEST_cleared: "\<not> TEST m (flags AND NOT m)"
  by (auto simp: TEST_def bit_eq_iff bit_and_iff bit_not_iff)

lemma safe_write_restore:
  "snd (dr_safe_write (snd (dr_safe_write m loc v)) loc (contents m loc)) = m"
  by (simp add: dr_safe_write_def)

lemma contents_safe_write:
  "contents (snd (dr_safe_write m loc v)) loc = (if writable m loc then v else contents m loc)"
  by (simp add: dr_safe_write_def)

lemma safe_write_unwritable: "\<not> writable m loc \<Longrightarrow> snd (dr_safe_write m loc v) = m"
  by (simp add: dr_safe_write_def)

lemma pre_SetInformationJobObject_kill_on_close:
  assumes "ucast (param 1) = JobObjectExtendedLimitInformation"
    and "sizeof_JOBOBJECT_EXTENDED_LIMIT_INFORMATION \<le> (ucast (param 3) :: ULONG)"
    and "readable (app_mem s) (param 2)"
    and "TEST JOB_OBJECT_LIMIT_KILL_ON_JOB_CLOSE (contents (app_mem s) (param 2 + offsetof_LimitFlags))"
  shows "pre_SetInformationJobObject env param s =
     s\<lparr>cls := \<lparr>job_limit_flags_orig = contents (app_mem s) (param 2 + offsetof_LimitFlags),
                job_limit_flags_loc = param 2 + offsetof_LimitFlags\<rparr>,
       app_mem := snd (dr_safe_write (app_mem s) (param 2 + offsetof_LimitFlags)
                        (contents (app_mem s) (param 2 + offsetof_LimitFlags) AND
                         NOT JOB_OBJECT_LIMIT_KILL_ON_JOB_CLOSE)),
       job_table := snd (hashtable_add env (job_table s) (param 0))\<rparr>"
  using assms
  by (simp add: pre_SetInformationJobObject_def dr_safe_read_info_def Let_def split_def)

lemma lookup_pre_SetInformationJobObject_mono:
  "hashtable_lookup env (job_table s) G \<Longrightarrow>
   hashtable_lookup env (job_table (pre_SetInformationJobObject env param s)) G"
  by (simp add: pre_SetInformationJobObject_def Let_def split_def lookup_add_mono
        split: option.splits)

lemma job_table_post [simp]:
  "job_table (soft_kills_post_syscall plat sysnum s) = job_table s"
  by (cases plat)
     (simp_all add: soft_kills_post_syscall_def soft_kills_post_syscall_WINDOWS_def
        soft_kills_post_syscall_UNIX_def split_def)

lemma trace_post [simp]:
  "trace (soft_kills_post_syscall plat sysnum s) = trace s"
  by (cases plat)
     (simp_all add: soft_kills_post_syscall_def soft_kills_post_syscall_WINDOWS_def
        soft_kills_post_syscall_UNIX_def split_def)

lemma pre_WINDOWS_keeps_tracked:
  assumes "hashtable_lookup env (job_table t) G"
    and "\<not> (sysnum = sysnum_Close t \<and> param 0 = G)"
  shows "hashtable_lookup env
           (job_table (snd (soft_kills_pre_syscall_WINDOWS env param sysnum t))) G"
proof -
  let ?r = "soft_kills_pre_syscall_WINDOWS env param sysnum t"
  consider (TP) "sysnum = sysnum_TerminateProcess t"
         | (TJ) "sysnum \<noteq> sysnum_TerminateProcess t" "sysnum = sysnum_TerminateJobObject t"
         | (SI) "sysnum \<noteq> sysnum_TerminateProcess t" "sysnum \<noteq> sysnum_TerminateJobObject t"
                "sysnum = sysnum_SetInformationJobObject t"
         | (CL) "sysnum \<noteq> sysnum_TerminateProcess t" "sysnum \<noteq> sysnum_TerminateJobObject t"
                "sysnum \<noteq> sysnum_SetInformationJobObject t" "sysnum = sysnum_Close t"
         | (NO) "sysnum \<noteq> sysnum_TerminateProcess t" "sysnum \<noteq> sysnum_TerminateJobObject t"
                "sysnum \<noteq> sysnum_SetInformationJobObject t" "sysnum \<noteq> sysnum_Close t"
    by blast
  then show ?thesis
  proof cases
    case TP
    show ?thesis
    proof (cases "dr_convert_handle_to_pid env (param 0) = INVALID_PROCESS_ID env \<or>
                  dr_convert_handle_to_pid env (param 0) = dr_get_process_id env")
      case True
      with TP have "?r = (True, t)" by (rule pre_TerminateProcess_unmediated)
      with assms(1) show ?thesis by simp
    next
      case False
      with TP assms(1) show ?thesis
        by (simp add: pre_TerminateProcess_eq Let_def)
    qed
  next
    case TJ
    with assms(1) show ?thesis by (simp add: pre_TerminateJobObject_eq)
  next
    case SI
    then have "?r = (True, pre_SetInformationJobObject env param t)"
      by (simp add: soft_kills_pre_syscall_WINDOWS_def)
    with assms(1) show ?thesis by (simp add: lookup_pre_SetInformationJobObject_mono)
  next
    case CL
    with assms(2) have "G \<noteq> param 0" by blast
    with CL assms(1) show ?thesis
      by (simp add: pre_Close_eq lookup_remove_other)
  next
    case NO
    then have "?r = (True, t)"
      by (simp add: soft_kills_pre_syscall_WINDOWS_def)
    with assms(1) show ?thesis by simp
  qed
qed

section \<open>Lemmas on the example inputs\<close>

lemma ex_env_simps2 [simp]:
  "dr_convert_handle_to_pid ex_env h =
     (if h = 0x44 then 202 else if h = 0x48 then 201 else if h = - 1 then 100 else 4294967295)"
  "dr_convert_pid_to_handle ex_env p =
     (if p = 204 then INVALID_HANDLE_VALUE else word_of_nat (4 * p))"
  "NtQueryInformationJobObject_num ex_env job =
     (if job = 0x50 then (STATUS_BUFFER_OVERFLOW, 3) else if job = 0x54 then (0, 1)
      else if job = 0x58 then (0, 2) else if job = 0x5c then (0, 0) else (0xC0000008, 0))"
  "NtQueryInformationJobObject_list ex_env job n =
     (if job = 0x50 then (0, \<lambda>i. 201 + i) else if job = 0x54 then (0, \<lambda>i. 204 + i)
      else (0xC0000004, \<lambda>i. 0))"
  "NtQueryInformationProcess_basic ex_env = (0, 48, 7)"
  "hash_key ex_env = unat"
  "dr_lookup_module_by_name ex_env name = (if name = ''ntdll.dll'' then Some 0x7ff0 else None)"
  "dr_get_proc_address ex_env h name =
     (if name = ''NtTerminateProcess'' then 0x1000
      else if name = ''NtTerminateJobObject'' then 0x1100
      else if name = ''NtSetInformationJobObject'' then 0x1200
      else if name = ''NtClose'' then 0x1300 else 0)"
  "drmgr_decode_sysnum_from_wrapper ex_env pc =
     (if pc = 0x1000 then 0x2c else if pc = 0x1100 then 0x18d
      else if pc = 0x1200 then 0x190 else if pc = 0x1300 then 0xf else - 1)"
  "dr_syscall_intercept_natively ex_env name sysnum num_params wow64_idx = True"
  "drmgr_register_cls_field ex_env = 0"
  by (simp_all add: ex_env_def)

lemma get_sysnum_ex:
  "soft_kills_get_sysnum ex_env ''NtTerminateProcess'' np w s =
     (0x2c, emit (Ev_intercept_natively ''NtTerminateProcess'' 0x2c)
              (if ntdll s = 0 then s\<lparr>ntdll := 0x7ff0\<rparr> else s))"
  "soft_kills_get_sysnum ex_env ''NtTerminateJobObject'' np w s =
     (0x18d, emit (Ev_intercept_natively ''NtTerminateJobObject'' 0x18d)
              (if ntdll s = 0 then s\<lparr>ntdll := 0x7ff0\<rparr> else s))"
  "soft_kills_get_sysnum ex_env ''NtSetInformationJobObject'' np w s =
     (0x190, emit (Ev_intercept_natively ''NtSetInformationJobObject'' 0x190)
              (if ntdll s = 0 then s\<lparr>ntdll := 0x7ff0\<rparr> else s))"
  "soft_kills_get_sysnum ex_env ''NtClose'' np w s =
     (0xf, emit (Ev_intercept_natively ''NtClose'' 0xf)
              (if ntdll s = 0 then s\<lparr>ntdll := 0x7ff0\<rparr> else s))"
  by (simp_all add: soft_kills_get_sysnum_def call_intercept_natively_def Let_def)

lemma register_first_ex:
  "drx_register_soft_kills WINDOWS ex_env cb (initial_state ex_mem\<lparr>drx_init_count := 1\<rparr>) =
     (True, ex_activated [cb])"
  by (simp add: drx_register_soft_kills_def soft_kills_init_def soft_kills_init_WINDOWS_def
        get_sysnum_ex Let_def initial_state_def emit_def ex_activated_def
        call_intercept_natively_def soft_kills_init_register_def)

lemma register_second_ex:
  "drx_register_soft_kills WINDOWS ex_env cb (ex_activated [cb']) =
     (True, ex_activated [cb, cb'])"
  by (simp add: drx_register_soft_kills_def ex_activated_def Let_def)

lemma ex_activated_simps [simp]:
  "cb_list (ex_activated cbs) = cbs"
  "sysnum_TerminateProcess (ex_activated cbs) = 0x2c"
  "sysnum_TerminateJobObject (ex_activated cbs) = 0x18d"
  "sysnum_SetInformationJobObject (ex_activated cbs) = 0x190"
  "sysnum_Close (ex_activated cbs) = 0xf"
  "job_table (ex_activated cbs) = hashtable_init JOB_TABLE_HASH_BITS"
  "app_mem (ex_activated cbs) = ex_mem"
  "cls (ex_activated cbs) = \<lparr>job_limit_flags_orig = 0, job_limit_flags_loc = 0\<rparr>"
  "drx_init_count (ex_activated cbs) = 1"
  "soft_kills_enabled (ex_activated cbs) = True"
  "cb_lock (ex_activated cbs) = Mutex_live"
  "cls_idx_soft (ex_activated cbs) = 0"
  by (simp_all add: ex_activated_def)

lemma ex_param_simps [simp]:
  "ex_param a0 a1 a2 a3 0 = a0"
  "ex_param a0 a1 a2 a3 (Suc 0) = a1"
  "ex_param a0 a1 a2 a3 2 = a2"
  "ex_param a0 a1 a2 a3 3 = a3"
  by (simp_all add: ex_param_def)

lemma STATUS_simps [simp]:
  "NT_SUCCESS 0" "\<not> NT_SUCCESS 0xC0000004" "\<not> NT_SUCCESS 0xC0000008"
  "\<not> NT_SUCCESS STATUS_BUFFER_OVERFLOW"
  by (simp_all add: NT_SUCCESS_def STATUS_BUFFER_OVERFLOW_def)

lemma ex_mem_simps [simp]:
  "contents ex_mem p = (if p = 0x7010 \<or> p = 0x9010 then 0x2008 else 0)"
  "readable ex_mem p = (p = 0x7000 \<or> p = 0x9000)"
  "writable ex_mem p = (p = 0x7010)"
  by (simp_all add: ex_mem_def)

lemma ex_consts:
  "JobObjectExtendedLimitInformation = 9"
  "sizeof_JOBOBJECT_EXTENDED_LIMIT_INFORMATION \<le> 144"
  "TEST JOB_OBJECT_LIMIT_KILL_ON_JOB_CLOSE 0x2008"
  "(0x7000 :: 64 word) + offsetof_LimitFlags = 0x7010"
  "(0x9000 :: 64 word) + offsetof_LimitFlags = 0x9010"
  "(0x2008 :: 32 word) AND NOT JOB_OBJECT_LIMIT_KILL_ON_JOB_CLOSE = 8"
  by (simp_all add: JobObjectExtendedLimitInformation_def
        sizeof_JOBOBJECT_EXTENDED_LIMIT_INFORMATION_def TEST_def
        JOB_OBJECT_LIMIT_KILL_ON_JOB_CLOSE_def offsetof_LimitFlags_def)

lemma pre_SetInformationJobObject_ex:
  "soft_kills_pre_syscall WINDOWS ex_env (ex_param job 9 buf 144) 0x190 (ex_activated cbs) =
     (True, pre_SetInformationJobObject ex_env (ex_param job 9 buf 144) (ex_activated cbs))"
  by (simp add: soft_kills_pre_syscall_def soft_kills_pre_syscall_WINDOWS_def)

lemma ex_tracked_eq:
  "ex_tracked =
     (ex_activated [2, 1])
       \<lparr>cls := \<lparr>job_limit_flags_orig = 0x2008, job_limit_flags_loc = 0\<rparr>,
        job_table := snd (hashtable_add ex_env (hashtable_init JOB_TABLE_HASH_BITS) 0x50)\<rparr>"
proof -
  have "snd (dr_safe_write (snd (dr_safe_write ex_mem 0x7010 8)) 0x7010 0x2008) = ex_mem"
    using safe_write_restore [of ex_mem "0x7010" 8] by simp
  then show ?thesis
    by (simp add: ex_tracked_def pre_SetInformationJobObject_ex
          pre_SetInformationJobObject_kill_on_close ex_consts
          soft_kills_post_syscall_def soft_kills_post_syscall_WINDOWS_def split_def)
qed

lemma ex_tracked_simps [simp]:
  "cb_list ex_tracked = [2, 1]"
  "sysnum_TerminateProcess ex_tracked = 0x2c"
  "sysnum_TerminateJobObject ex_tracked = 0x18d"
  "sysnum_SetInformationJobObject ex_tracked = 0x190"
  "sysnum_Close ex_tracked = 0xf"
  "job_table ex_tracked = snd (hashtable_add ex_env (hashtable_init JOB_TABLE_HASH_BITS) 0x50)"
  "drx_init_count ex_tracked = 1"
  "soft_kills_enabled ex_tracked = True"
  "cls_idx_soft ex_tracked = 0"
  by (simp_all add: ex_tracked_eq)


section \<open>Lemmas on activation and teardown\<close>

lemma exit_free_cbs_Nil [simp]: "exit_free_cbs cbs = []"
  by (induction cbs) simp_all





lemma lookup_hashtable_delete [simp]: "\<not> hashtable_lookup env (hashtable_delete t) h"
  by (simp add: hashtable_lookup_def hashtable_delete_def)





lemma get_sysnum_unresolved:
  "soft_kills_get_sysnum ex_env_unresolved ''NtTerminateProcess'' np w s =
     (0x2c, emit (Ev_intercept_natively ''NtTerminateProcess'' 0x2c)
              (if ntdll s = 0 then s\<lparr>ntdll := 0x7ff0\<rparr> else s))"
  "soft_kills_get_sysnum ex_env_unresolved ''NtTerminateJobObject'' np w s =
     (- 1, if ntdll s = 0 then s\<lparr>ntdll := 0x7ff0\<rparr> else s)"
  by (simp_all add: soft_kills_get_sysnum_def call_intercept_natively_def Let_def
        ex_env_unresolved_def)

lemma enabled_lock_call_intercept [simp]:
  "soft_kills_enabled (snd (call_intercept_natively env name n np w s)) = soft_kills_enabled s"
  "cb_lock (snd (call_intercept_natively env name n np w s)) = cb_lock s"
  "job_table (snd (call_intercept_natively env name n np w s)) = job_table s"
  by (simp_all add: call_intercept_natively_def emit_def)

lemma enabled_lock_get_sysnum [simp]:
  "soft_kills_enabled (snd (soft_kills_get_sysnum env name np w s)) = soft_kills_enabled s"
  "cb_lock (snd (soft_kills_get_sysnum env name np w s)) = cb_lock s"
  "job_table (snd (soft_kills_get_sysnum env name np w s)) = job_table s"
  by (auto simp: soft_kills_get_sysnum_def Let_def call_intercept_natively_def emit_def
        split: option.splits prod.splits)

lemma enabled_lock_init_register [simp]:
  "soft_kills_enabled (snd (soft_kills_init_register env s)) = soft_kills_enabled s"
  "cb_lock (snd (soft_kills_init_register env s)) = cb_lock s"
  "job_table (snd (soft_kills_init_register env s)) = job_table s"
  by (simp_all add: soft_kills_init_register_def Let_def emit_def)

lemma init_not_rolled_back:
  "soft_kills_enabled (snd (soft_kills_init plat env s))"
  "cb_lock (snd (soft_kills_init plat env s)) = Mutex_live"
  "plat = WINDOWS \<Longrightarrow>
     job_table (snd (soft_kills_init plat env s)) = hashtable_init JOB_TABLE_HASH_BITS"
  by (cases plat;
      simp add: soft_kills_init_def soft_kills_init_UNIX_def soft_kills_init_WINDOWS_def
        Let_def split_def emit_def)+

lemma effective_cached [simp]:
  "effective_ntdll env (cached_ntdll env h0) = effective_ntdll env h0"
  by (auto simp: effective_ntdll_def cached_ntdll_def split: option.splits)

lemma cached_cached [simp]:
  "cached_ntdll env (cached_ntdll env h0) = cached_ntdll env h0"
  by (simp add: cached_ntdll_def split: option.splits) (auto simp: effective_ntdll_def split: if_splits)

lemma resolve_intercepted:
  "resolve_sysnum env m name np w \<noteq> - 1 \<Longrightarrow>
   dr_syscall_intercept_natively env name (resolve_sysnum env m name np w) np w"
  by (auto simp: resolve_sysnum_def Let_def split: option.splits if_splits)

lemma soft_kills_get_sysnum_eq:
  "soft_kills_get_sysnum env name np w s =
     (resolve_sysnum env (effective_ntdll env (ntdll s)) name np w,
      s\<lparr>ntdll := cached_ntdll env (ntdll s),
        trace := trace s @
          (if resolve_sysnum env (effective_ntdll env (ntdll s)) name np w = - 1 then []
           else [Ev_intercept_natively name
                   (resolve_sysnum env (effective_ntdll env (ntdll s)) name np w)])\<rparr>)"
proof (cases "effective_ntdll env (ntdll s)")
  case None
  then show ?thesis
    by (auto simp: soft_kills_get_sysnum_def effective_ntdll_def cached_ntdll_def
          resolve_sysnum_def split: if_splits)
next
  case (Some h)
  show ?thesis
  proof (cases "ntdll s = 0")
    case True
    with Some show ?thesis
      by (simp add: soft_kills_get_sysnum_def effective_ntdll_def cached_ntdll_def
            resolve_sysnum_def Let_def call_intercept_natively_def emit_def)
  next
    case False
    with Some show ?thesis
      by (simp add: soft_kills_get_sysnum_def effective_ntdll_def cached_ntdll_def
            resolve_sysnum_def Let_def call_intercept_natively_def emit_def)
  qed
qed


lemma soft_kills_init_register_eq:
  "soft_kills_init_register env s =
     (drmgr_register_pre_syscall_event env \<and> drmgr_register_post_syscall_event env,
      s\<lparr>trace := trace s @
          (if \<not> drmgr_register_pre_syscall_event env then []
           else Ev_register_pre_syscall #
                (if \<not> drmgr_register_post_syscall_event env then []
                 else [Ev_register_post_syscall, Ev_register_filter_syscall]))\<rparr>)"
  by (simp add: soft_kills_init_register_def Let_def emit_def)

lemma call_intercept_resolved:
  "resolve_sysnum env m name np w \<noteq> - 1 \<Longrightarrow>
   call_intercept_natively env name (resolve_sysnum env m name np w) np w s =
     (True, s\<lparr>trace := trace s @
               [Ev_intercept_natively name (resolve_sysnum env m name np w)]\<rparr>)"
  by (simp add: call_intercept_natively_def resolve_intercepted emit_def)

lemma soft_kills_init_WINDOWS_eq:
  assumes n1: "n1 = resolve_sysnum env (effective_ntdll env (ntdll s)) ''NtTerminateProcess'' 2 0"
    and n2: "n2 = resolve_sysnum env (effective_ntdll env (ntdll s)) ''NtTerminateJobObject'' 2 0"
    and n3: "n3 = resolve_sysnum env (effective_ntdll env (ntdll s)) ''NtSetInformationJobObject'' 4 7"
    and n4: "n4 = resolve_sysnum env (effective_ntdll env (ntdll s)) ''NtClose'' 1 0"
  shows "soft_kills_init_WINDOWS env s =
     (n1 \<noteq> - 1 \<and> n2 \<noteq> - 1 \<and> n3 \<noteq> - 1 \<and> n4 \<noteq> - 1 \<and> drmgr_register_cls_field env \<noteq> - 1 \<and>
      drmgr_register_pre_syscall_event env \<and> drmgr_register_post_syscall_event env,
      s\<lparr>soft_kills_enabled := True, cb_lock := Mutex_live,
        job_table := hashtable_init JOB_TABLE_HASH_BITS,
        ntdll := cached_ntdll env (ntdll s),
        sysnum_TerminateProcess := n1,
        sysnum_TerminateJobObject := (if n1 = - 1 then sysnum_TerminateJobObject s else n2),
        sysnum_SetInformationJobObject :=
          (if n1 = - 1 \<or> n2 = - 1 then sysnum_SetInformationJobObject s else n3),
        sysnum_Close :=
          (if n1 = - 1 \<or> n2 = - 1 \<or> n3 = - 1 then sysnum_Close s else n4),
        cls_idx_soft :=
          (if n1 = - 1 \<or> n2 = - 1 \<or> n3 = - 1 \<or> n4 = - 1 then cls_idx_soft s
           else drmgr_register_cls_field env),
        trace := trace s @
          (if n1 = - 1 then [] else Ev_intercept_natively ''NtTerminateProcess'' n1 #
          (if n2 = - 1 then [] else Ev_intercept_natively ''NtTerminateJobObject'' n2 #
          (if n3 = - 1 then [] else Ev_intercept_natively ''NtSetInformationJobObject'' n3 #
          (if n4 = - 1 then [] else Ev_intercept_natively ''NtClose'' n4 #
          (if drmgr_register_cls_field env = - 1 then []
           else [Ev_register_cls_field,
                 Ev_intercept_natively ''NtTerminateProcess'' n1,
                 Ev_intercept_natively ''NtTerminateJobObject'' n2,
                 Ev_intercept_natively ''NtSetInformationJobObject'' n3,
                 Ev_intercept_natively ''NtClose'' n4] @
                (if \<not> drmgr_register_pre_syscall_event env then []
                 else Ev_register_pre_syscall #
                      (if \<not> drmgr_register_post_syscall_event env then []
                       else [Ev_register_post_syscall, Ev_register_filter_syscall])))))))\<rparr>)"
proof (cases "n1 = - 1")
  case True
  then show ?thesis
    using n1 by (simp add: soft_kills_init_WINDOWS_def soft_kills_get_sysnum_eq Let_def)
next
  case f1: False
  show ?thesis
  proof (cases "n2 = - 1")
    case True
    with f1 show ?thesis
      using n1 n2 by (simp add: soft_kills_init_WINDOWS_def soft_kills_get_sysnum_eq Let_def)
  next
    case f2: False
    show ?thesis
    proof (cases "n3 = - 1")
      case True
      with f1 f2 show ?thesis
        using n1 n2 n3
        by (simp add: soft_kills_init_WINDOWS_def soft_kills_get_sysnum_eq Let_def)
    next
      case f3: False
      show ?thesis
      proof (cases "n4 = - 1")
        case True
        with f1 f2 f3 show ?thesis
          using n1 n2 n3 n4
          by (simp add: soft_kills_init_WINDOWS_def soft_kills_get_sysnum_eq Let_def)
      next
        case f4: False
        show ?thesis
        proof (cases "drmgr_register_cls_field env = - 1")
          case True
          with f1 f2 f3 f4 show ?thesis
            using n1 n2 n3 n4
            by (simp add: soft_kills_init_WINDOWS_def soft_kills_get_sysnum_eq Let_def)
        next
          case False
          with f1 f2 f3 f4 show ?thesis
            using n1 n2 n3 n4
            by (simp add: soft_kills_init_WINDOWS_def soft_kills_get_sysnum_eq Let_def
                  call_intercept_resolved soft_kills_init_register_eq emit_def)
        qed
      qed
    qed
  qed
qed


lemma fst_soft_kills_get_sysnum:
  "fst (soft_kills_get_sysnum env name np w s) =
     resolve_sysnum env (effective_ntdll env (ntdll s)) name np w"
  by (simp add: soft_kills_get_sysnum_eq)

section \<open>C1: the callback fan-out\<close>

text \<open>
  C1, as amended. Starting from an empty registry, register the callbacks \<open>cbs\<close> in
  this order with \<^verbatim>\<open>drx_register_soft_kills\<close>. One call of
  \<^verbatim>\<open>soft_kills_invoke_cbs\<close> then calls every registered callback exactly once,
  whatever the callbacks return, with the given pid and exit code, and returns true
  exactly when some callback returned true. The order of the calls is the reverse of
  the registration order (the callback registered last is called first), because
  registration makes the new entry the head of the list and the fan-out walks the list
  from its head. Nothing but the event trace changes.
\<close>

theorem invoke_cbs_reverse_registration_order:
  assumes "cb_list s0 = []"
  shows "let s = fold (\<lambda>cb s. snd (drx_register_soft_kills plat env cb s)) cbs s0
         in soft_kills_invoke_cbs env pid exit_code s =
              ((\<exists>cb\<in>set cbs. cb_fun env cb pid exit_code),
               s\<lparr>trace := trace s @ map (\<lambda>cb. Ev_cb cb pid exit_code) (rev cbs)\<rparr>)"
  using assms by (simp add: Let_def soft_kills_invoke_cbs_eq cb_list_fold_register)

theorem invoke_cbs_reverse_registration_order_witness:
  "cb_list (initial_state ex_mem :: nat drx_state) = [] \<and>
   (let s = fold (\<lambda>cb s. snd (drx_register_soft_kills UNIX ex_env cb s)) [1, 2]
              (initial_state ex_mem)
    in soft_kills_invoke_cbs ex_env 202 0 s =
       (True, s\<lparr>trace := trace s @ [Ev_cb 2 202 0, Ev_cb 1 202 0]\<rparr>))"
  using invoke_cbs_reverse_registration_order
          [of "initial_state ex_mem" UNIX ex_env "[1, 2]" 202 0]
  by simp

text \<open>
  C1 as stated fails: callback 1 is registered first and callback 2 second, on the
  initial state; the fan-out for process 202 calls callback 2 before callback 1. (The
  first three events are those of the activation that the first registration runs.)
\<close>

theorem invoke_cbs_registration_order_counterexample:
  "trace (snd (soft_kills_invoke_cbs ex_env 202 0
     (snd (drx_register_soft_kills UNIX ex_env 2
        (snd (drx_register_soft_kills UNIX ex_env 1 (initial_state ex_mem)))))))
   = [Ev_register_pre_syscall, Ev_register_post_syscall, Ev_register_filter_syscall,
      Ev_cb 2 202 0, Ev_cb 1 202 0]
   \<and>
   trace (snd (soft_kills_invoke_cbs ex_env 202 0
     (snd (drx_register_soft_kills UNIX ex_env 2
        (snd (drx_register_soft_kills UNIX ex_env 1 (initial_state ex_mem)))))))
   \<noteq> [Ev_register_pre_syscall, Ev_register_post_syscall, Ev_register_filter_syscall,
      Ev_cb 1 202 0, Ev_cb 2 202 0]"
  by (simp add: soft_kills_invoke_cbs_eq trace_register_UNIX_ex)

section \<open>C2: the result of registration\<close>

text \<open>
  C2, as amended. When the call of \<^verbatim>\<open>drx_register_soft_kills\<close> is not the first
  one, it registers the callback (the new head of \<^verbatim>\<open>cb_list\<close>), returns true and
  changes nothing else but the counter. When it is the first one and the one-time
  activation \<^verbatim>\<open>soft_kills_init\<close> succeeds, it returns true and the state is the
  activated one with the callback registered.

  Activation stops at its first failing step and undoes nothing. Let \<open>n1\<close>, ...,
  \<open>n4\<close> be the numbers that \<^verbatim>\<open>soft_kills_get_sysnum\<close> returns for
  \<^verbatim>\<open>NtTerminateProcess\<close>, \<^verbatim>\<open>NtTerminateJobObject\<close>,
  \<^verbatim>\<open>NtSetInformationJobObject\<close> and \<^verbatim>\<open>NtClose\<close> (-1 for a failure). After a
  first call, whatever \<^verbatim>\<open>soft_kills_init\<close> returned: \<^verbatim>\<open>soft_kills_enabled\<close> is
  set and the lock exists; \<^verbatim>\<open>soft_kills_init\<close> returned true exactly when every step
  succeeded; on UNIX the events added are the pre-syscall registration if drmgr
  accepted it, followed by the post-syscall and filter registrations if drmgr accepted
  the post-syscall one; on WINDOWS the handle table is initialised, each syscall number
  up to and including the first failing one is assigned and the later ones are left as
  they were, and the events added are exactly the native interceptions of the syscalls
  resolved before the first failure, then, when all four are resolved and the context
  field is registered, that registration, the four interceptions again and the
  registration events described for UNIX. (What the call returns and registers when
  activation fails is not part of this statement.)
\<close>

theorem register_soft_kills_outcome:
  assumes "n1 = fst (soft_kills_get_sysnum env ''NtTerminateProcess'' 2 0 s)"
    and "n2 = fst (soft_kills_get_sysnum env ''NtTerminateJobObject'' 2 0 s)"
    and "n3 = fst (soft_kills_get_sysnum env ''NtSetInformationJobObject'' 4 7 s)"
    and "n4 = fst (soft_kills_get_sysnum env ''NtClose'' 1 0 s)"
    and "registered =
           (if \<not> drmgr_register_pre_syscall_event env then []
            else Ev_register_pre_syscall #
                 (if \<not> drmgr_register_post_syscall_event env then []
                  else [Ev_register_post_syscall, Ev_register_filter_syscall]))"
    and "s' = snd (drx_register_soft_kills plat env cb s)"
  shows
  "(soft_kills_init_count s + 1 \<noteq> 1 \<longrightarrow>
      drx_register_soft_kills plat env cb s =
        (True, s\<lparr>soft_kills_init_count := soft_kills_init_count s + 1,
                 cb_list := cb # cb_list s\<rparr>))
   \<and>
   (soft_kills_init_count s + 1 = 1 \<and>
    fst (soft_kills_init plat env (s\<lparr>soft_kills_init_count := 1\<rparr>)) \<longrightarrow>
      drx_register_soft_kills plat env cb s =
        (True, (snd (soft_kills_init plat env (s\<lparr>soft_kills_init_count := 1\<rparr>)))
                 \<lparr>cb_list := cb # cb_list s\<rparr>))
   \<and>
   (soft_kills_init_count s + 1 = 1 \<longrightarrow>
      soft_kills_enabled s' \<and> cb_lock s' = Mutex_live \<and>
      (plat = UNIX \<longrightarrow>
         fst (soft_kills_init plat env (s\<lparr>soft_kills_init_count := 1\<rparr>)) =
           (drmgr_register_pre_syscall_event env \<and> drmgr_register_post_syscall_event env) \<and>
         trace s' = trace s @ registered) \<and>
      (plat = WINDOWS \<longrightarrow>
         job_table s' = hashtable_init JOB_TABLE_HASH_BITS \<and>
         fst (soft_kills_init plat env (s\<lparr>soft_kills_init_count := 1\<rparr>)) =
           (n1 \<noteq> - 1 \<and> n2 \<noteq> - 1 \<and> n3 \<noteq> - 1 \<and> n4 \<noteq> - 1 \<and>
            drmgr_register_cls_field env \<noteq> - 1 \<and>
            drmgr_register_pre_syscall_event env \<and> drmgr_register_post_syscall_event env) \<and>
         sysnum_TerminateProcess s' = n1 \<and>
         sysnum_TerminateJobObject s' = (if n1 = - 1 then sysnum_TerminateJobObject s else n2) \<and>
         sysnum_SetInformationJobObject s' =
           (if n1 = - 1 \<or> n2 = - 1 then sysnum_SetInformationJobObject s else n3) \<and>
         sysnum_Close s' =
           (if n1 = - 1 \<or> n2 = - 1 \<or> n3 = - 1 then sysnum_Close s else n4) \<and>
         trace s' = trace s @
           (if n1 = - 1 then [] else Ev_intercept_natively ''NtTerminateProcess'' n1 #
           (if n2 = - 1 then [] else Ev_intercept_natively ''NtTerminateJobObject'' n2 #
           (if n3 = - 1 then [] else Ev_intercept_natively ''NtSetInformationJobObject'' n3 #
           (if n4 = - 1 then [] else Ev_intercept_natively ''NtClose'' n4 #
           (if drmgr_register_cls_field env = - 1 then []
            else [Ev_register_cls_field,
                  Ev_intercept_natively ''NtTerminateProcess'' n1,
                  Ev_intercept_natively ''NtTerminateJobObject'' n2,
                  Ev_intercept_natively ''NtSetInformationJobObject'' n3,
                  Ev_intercept_natively ''NtClose'' n4] @ registered)))))))"
proof -
  let ?s1 = "s\<lparr>soft_kills_init_count := 1\<rparr>"
  have m: "effective_ntdll env (ntdll ?s1) = effective_ntdll env (ntdll s)" by simp
  note W = soft_kills_init_WINDOWS_eq
             [of n1 env ?s1 n2 n3 n4,
              unfolded m, OF assms(1-4) [unfolded fst_soft_kills_get_sysnum]]
  have U: "soft_kills_init_UNIX env ?s1 =
     (drmgr_register_pre_syscall_event env \<and> drmgr_register_post_syscall_event env,
      ?s1\<lparr>soft_kills_enabled := True, cb_lock := Mutex_live,
           trace := trace s @ registered\<rparr>)"
    by (simp add: soft_kills_init_UNIX_def soft_kills_init_register_eq assms(5))
  have a: "soft_kills_init_count s + 1 \<noteq> 1 \<longrightarrow>
      drx_register_soft_kills plat env cb s =
        (True, s\<lparr>soft_kills_init_count := soft_kills_init_count s + 1,
                 cb_list := cb # cb_list s\<rparr>)"
    by (simp add: drx_register_soft_kills_def Let_def)
  have b: "soft_kills_init_count s + 1 = 1 \<and>
    fst (soft_kills_init plat env ?s1) \<longrightarrow>
      drx_register_soft_kills plat env cb s =
        (True, (snd (soft_kills_init plat env ?s1))\<lparr>cb_list := cb # cb_list s\<rparr>)"
    by (simp add: drx_register_soft_kills_def Let_def)
  have first: "s' = (snd (soft_kills_init plat env ?s1))
                      \<lparr>cb_list := cb # cb_list (snd (soft_kills_init plat env ?s1))\<rparr>"
    if "soft_kills_init_count s + 1 = 1"
    using that by (simp add: assms(6) drx_register_soft_kills_def Let_def)
  have c: "soft_kills_init_count s + 1 = 1 \<longrightarrow>
      soft_kills_enabled s' \<and> cb_lock s' = Mutex_live"
    using first by (simp add: init_not_rolled_back)
  have u: "fst (soft_kills_init plat env ?s1) =
           (drmgr_register_pre_syscall_event env \<and> drmgr_register_post_syscall_event env) \<and>
         trace s' = trace s @ registered"
    if "soft_kills_init_count s + 1 = 1" "plat = UNIX"
    using first [OF that(1)] that(2) by (simp add: soft_kills_init_def U)
  have w: "job_table s' = hashtable_init JOB_TABLE_HASH_BITS \<and>
         fst (soft_kills_init plat env ?s1) =
           (n1 \<noteq> - 1 \<and> n2 \<noteq> - 1 \<and> n3 \<noteq> - 1 \<and> n4 \<noteq> - 1 \<and>
            drmgr_register_cls_field env \<noteq> - 1 \<and>
            drmgr_register_pre_syscall_event env \<and> drmgr_register_post_syscall_event env) \<and>
         sysnum_TerminateProcess s' = n1 \<and>
         sysnum_TerminateJobObject s' = (if n1 = - 1 then sysnum_TerminateJobObject s else n2) \<and>
         sysnum_SetInformationJobObject s' =
           (if n1 = - 1 \<or> n2 = - 1 then sysnum_SetInformationJobObject s else n3) \<and>
         sysnum_Close s' =
           (if n1 = - 1 \<or> n2 = - 1 \<or> n3 = - 1 then sysnum_Close s else n4) \<and>
         trace s' = trace s @
           (if n1 = - 1 then [] else Ev_intercept_natively ''NtTerminateProcess'' n1 #
           (if n2 = - 1 then [] else Ev_intercept_natively ''NtTerminateJobObject'' n2 #
           (if n3 = - 1 then [] else Ev_intercept_natively ''NtSetInformationJobObject'' n3 #
           (if n4 = - 1 then [] else Ev_intercept_natively ''NtClose'' n4 #
           (if drmgr_register_cls_field env = - 1 then []
            else [Ev_register_cls_field,
                  Ev_intercept_natively ''NtTerminateProcess'' n1,
                  Ev_intercept_natively ''NtTerminateJobObject'' n2,
                  Ev_intercept_natively ''NtSetInformationJobObject'' n3,
                  Ev_intercept_natively ''NtClose'' n4] @ registered)))))"
    if "soft_kills_init_count s + 1 = 1" "plat = WINDOWS"
    using first [OF that(1)] that(2)
    by (simp add: soft_kills_init_def W assms(5))
  from a b c u w show ?thesis by blast
qed


theorem register_soft_kills_outcome_witness:
  "soft_kills_init_count (initial_state ex_mem\<lparr>drx_init_count := 1\<rparr> :: nat drx_state) + 1 = 1 \<and>
   fst (soft_kills_init WINDOWS ex_env
          (initial_state ex_mem\<lparr>drx_init_count := 1, soft_kills_init_count := 1\<rparr>)) \<and>
   drx_register_soft_kills WINDOWS ex_env 1 (initial_state ex_mem\<lparr>drx_init_count := 1\<rparr>) =
     (True, ex_activated [1]) \<and>
   soft_kills_init_count (ex_activated [1]) + 1 \<noteq> 1 \<and>
   drx_register_soft_kills WINDOWS ex_env 2 (ex_activated [1]) = (True, ex_activated [2, 1]) \<and>
   soft_kills_init_count (initial_state ex_mem :: nat drx_state) + 1 = 1 \<and>
   fst (soft_kills_get_sysnum ex_env_unresolved ''NtTerminateProcess'' 2 0
          (initial_state ex_mem)) = 0x2c \<and>
   fst (soft_kills_get_sysnum ex_env_unresolved ''NtTerminateJobObject'' 2 0
          (initial_state ex_mem)) = - 1 \<and>
   \<not> fst (soft_kills_init WINDOWS ex_env_unresolved
            (initial_state ex_mem\<lparr>soft_kills_init_count := 1\<rparr>)) \<and>
   soft_kills_enabled (snd (drx_register_soft_kills WINDOWS ex_env_unresolved 1 (initial_state ex_mem))) \<and>
   cb_lock (snd (drx_register_soft_kills WINDOWS ex_env_unresolved 1 (initial_state ex_mem))) =
     Mutex_live \<and>
   sysnum_TerminateProcess
     (snd (drx_register_soft_kills WINDOWS ex_env_unresolved 1 (initial_state ex_mem))) = 0x2c \<and>
   sysnum_TerminateJobObject
     (snd (drx_register_soft_kills WINDOWS ex_env_unresolved 1 (initial_state ex_mem))) = - 1 \<and>
   trace (snd (drx_register_soft_kills WINDOWS ex_env_unresolved 1 (initial_state ex_mem))) =
     [Ev_intercept_natively ''NtTerminateProcess'' 0x2c] \<and>
   \<not> drmgr_register_post_syscall_event ex_env_unregistered \<and>
   \<not> fst (soft_kills_init UNIX ex_env_unregistered
            (initial_state ex_mem\<lparr>soft_kills_init_count := 1\<rparr>)) \<and>
   trace (snd (drx_register_soft_kills UNIX ex_env_unregistered 1 (initial_state ex_mem))) =
     [Ev_register_pre_syscall]"
proof -
  have init: "soft_kills_init WINDOWS ex_env
          (initial_state ex_mem\<lparr>drx_init_count := 1, soft_kills_init_count := 1\<rparr>) =
          (True, (ex_activated [])\<lparr>soft_kills_init_count := 1\<rparr>)"
    by (simp add: soft_kills_init_def soft_kills_init_WINDOWS_def
        get_sysnum_ex Let_def initial_state_def emit_def ex_activated_def
        call_intercept_natively_def soft_kills_init_register_def)
  have c0: "soft_kills_init_count (initial_state ex_mem\<lparr>drx_init_count := 1\<rparr> :: nat drx_state) + 1 = 1"
    and c0': "soft_kills_init_count (initial_state ex_mem :: nat drx_state) + 1 = 1"
    by simp_all
  have c1: "soft_kills_init_count (ex_activated [1]) + 1 \<noteq> 1"
    by (simp add: ex_activated_def)
  have eq1: "(ex_activated [])\<lparr>soft_kills_init_count := 1, cb_list := [1]\<rparr> = ex_activated [1]"
    by (simp add: ex_activated_def)
  have eq2: "(ex_activated [1])\<lparr>soft_kills_init_count := soft_kills_init_count (ex_activated [1]) + 1,
               cb_list := [2, 1]\<rparr> = ex_activated [2, 1]"
    by (simp add: ex_activated_def)
  have n: "fst (soft_kills_get_sysnum ex_env_unresolved ''NtTerminateProcess'' 2 0
                  (initial_state ex_mem :: nat drx_state)) = 0x2c"
    "fst (soft_kills_get_sysnum ex_env_unresolved ''NtTerminateJobObject'' 2 0
            (initial_state ex_mem :: nat drx_state)) = - 1"
    by (simp_all add: get_sysnum_unresolved)
  have unreg: "\<not> drmgr_register_post_syscall_event ex_env_unregistered"
    "drmgr_register_pre_syscall_event ex_env_unregistered"
    by (simp_all add: ex_env_unregistered_def)
  note A = register_soft_kills_outcome
             [where plat = WINDOWS and env = ex_env and cb = 1
                and s = "initial_state ex_mem\<lparr>drx_init_count := 1\<rparr>",
              OF refl refl refl refl refl refl]
  note B = register_soft_kills_outcome
             [where plat = WINDOWS and env = ex_env and cb = 2 and s = "ex_activated [1]",
              OF refl refl refl refl refl refl]
  note C = register_soft_kills_outcome
             [where plat = WINDOWS and env = ex_env_unresolved and cb = 1
                and s = "initial_state ex_mem",
              OF refl refl refl refl refl refl, unfolded n]
  note D = register_soft_kills_outcome
             [where plat = UNIX and env = ex_env_unregistered and cb = 1
                and s = "initial_state ex_mem",
              OF refl refl refl refl refl refl]
  from A c0 init have r1': "drx_register_soft_kills WINDOWS ex_env 1 (initial_state ex_mem\<lparr>drx_init_count := 1\<rparr>) =
     (True, (snd (soft_kills_init WINDOWS ex_env
          (initial_state ex_mem\<lparr>drx_init_count := 1, soft_kills_init_count := 1\<rparr>)))
            \<lparr>cb_list := 1 # cb_list (initial_state ex_mem\<lparr>drx_init_count := 1\<rparr>)\<rparr>)"
    by simp
  have r1: "drx_register_soft_kills WINDOWS ex_env 1 (initial_state ex_mem\<lparr>drx_init_count := 1\<rparr>) =
     (True, ex_activated [1])"
    using r1' init eq1 by simp
  from B c1 have r2': "drx_register_soft_kills WINDOWS ex_env 2 (ex_activated [1]) =
     (True, (ex_activated [1])\<lparr>soft_kills_init_count := soft_kills_init_count (ex_activated [1]) + 1,
               cb_list := 2 # cb_list (ex_activated [1])\<rparr>)"
    by blast
  have r2: "drx_register_soft_kills WINDOWS ex_env 2 (ex_activated [1]) = (True, ex_activated [2, 1])"
    using r2' eq2 by simp
  from C c0' have r3:
    "\<not> fst (soft_kills_init WINDOWS ex_env_unresolved
            (initial_state ex_mem\<lparr>soft_kills_init_count := 1\<rparr>))"
    "soft_kills_enabled (snd (drx_register_soft_kills WINDOWS ex_env_unresolved 1 (initial_state ex_mem)))"
    "cb_lock (snd (drx_register_soft_kills WINDOWS ex_env_unresolved 1 (initial_state ex_mem))) =
       Mutex_live"
    "sysnum_TerminateProcess
       (snd (drx_register_soft_kills WINDOWS ex_env_unresolved 1 (initial_state ex_mem))) = 0x2c"
    "sysnum_TerminateJobObject
       (snd (drx_register_soft_kills WINDOWS ex_env_unresolved 1 (initial_state ex_mem))) = - 1"
    "trace (snd (drx_register_soft_kills WINDOWS ex_env_unresolved 1 (initial_state ex_mem))) =
       [Ev_intercept_natively ''NtTerminateProcess'' 0x2c]"
    by simp_all
  from D c0' unreg have r4:
    "\<not> fst (soft_kills_init UNIX ex_env_unregistered
            (initial_state ex_mem\<lparr>soft_kills_init_count := 1\<rparr>))"
    "trace (snd (drx_register_soft_kills UNIX ex_env_unregistered 1 (initial_state ex_mem))) =
       [Ev_register_pre_syscall]"
    by simp_all
  from c0 c0' init c1 r1 r2 n r3 unreg(1) r4 show ?thesis by simp
qed

text \<open>
  C2 as stated fails. On WINDOWS with \<^verbatim>\<open>NtTerminateJobObject\<close> unresolved,
  \<^verbatim>\<open>soft_kills_init\<close> returns false, yet the first registration returns true; the
  subsystem is not inert: it is enabled, the lock and the table exist,
  \<^verbatim>\<open>NtTerminateProcess\<close> is intercepted natively and the callback is registered. On
  UNIX with the post-syscall event refused the same happens, with the pre-syscall
  event left registered.
\<close>

theorem register_soft_kills_counterexample:
  "fst (soft_kills_init WINDOWS ex_env_unresolved
          ((initial_state ex_mem)\<lparr>soft_kills_init_count := 1\<rparr>)) = False \<and>
   drx_register_soft_kills WINDOWS ex_env_unresolved 1 (initial_state ex_mem) =
     (True,
      (initial_state ex_mem)
        \<lparr>soft_kills_enabled := True, soft_kills_init_count := 1, cb_list := [1],
         cb_lock := Mutex_live, sysnum_TerminateProcess := 0x2c,
         sysnum_TerminateJobObject := - 1,
         job_table := hashtable_init JOB_TABLE_HASH_BITS, ntdll := 0x7ff0,
         trace := [Ev_intercept_natively ''NtTerminateProcess'' 0x2c]\<rparr>) \<and>
   fst (soft_kills_init UNIX ex_env_unregistered
          ((initial_state ex_mem)\<lparr>soft_kills_init_count := 1\<rparr>)) = False \<and>
   drx_register_soft_kills UNIX ex_env_unregistered 1 (initial_state ex_mem) =
     (True,
      (initial_state ex_mem)
        \<lparr>soft_kills_enabled := True, soft_kills_init_count := 1, cb_list := [1],
         cb_lock := Mutex_live, trace := [Ev_register_pre_syscall]\<rparr>)"
proof -
  have W: "soft_kills_init WINDOWS ex_env_unresolved
             ((initial_state ex_mem)\<lparr>soft_kills_init_count := 1\<rparr>) =
     (False,
      (initial_state ex_mem)
        \<lparr>soft_kills_enabled := True, soft_kills_init_count := 1,
         cb_lock := Mutex_live, sysnum_TerminateProcess := 0x2c,
         sysnum_TerminateJobObject := - 1,
         job_table := hashtable_init JOB_TABLE_HASH_BITS, ntdll := 0x7ff0,
         trace := [Ev_intercept_natively ''NtTerminateProcess'' 0x2c]\<rparr>)"
    by (simp add: soft_kills_init_def soft_kills_init_WINDOWS_def get_sysnum_unresolved
          Let_def initial_state_def emit_def)
  have U: "soft_kills_init UNIX ex_env_unregistered
             ((initial_state ex_mem)\<lparr>soft_kills_init_count := 1\<rparr>) =
     (False,
      (initial_state ex_mem)
        \<lparr>soft_kills_enabled := True, soft_kills_init_count := 1,
         cb_lock := Mutex_live, trace := [Ev_register_pre_syscall]\<rparr>)"
    by (simp add: soft_kills_init_def soft_kills_init_UNIX_def soft_kills_init_register_def
          Let_def initial_state_def emit_def ex_env_unregistered_def)
  have c: "soft_kills_init_count (initial_state ex_mem :: nat drx_state) + 1 = 1"
    by simp
  show ?thesis
    by (simp add: drx_register_soft_kills_def Let_def W U)
qed

section \<open>C3: direct termination of another process\<close>

text \<open>
  C3. A direct termination syscall (\<^verbatim>\<open>NtTerminateProcess\<close> on WINDOWS, \<^verbatim>\<open>kill\<close>
  with \<^verbatim>\<open>SIGKILL\<close> on UNIX) whose target \<open>pid\<close> is resolved and is not the
  caller: every subscriber is called with the target and the exit code; if at least
  one returns true, the pre-phase sets the result 0 (success) and returns false, so the
  real syscall is skipped; if every subscriber returns false, the pre-phase returns
  true (the syscall runs), sets no result, and only the subscriber calls are added to
  the trace.
\<close>

theorem direct_termination_mediated:
  assumes "pid \<noteq> INVALID_PROCESS_ID env" and "pid \<noteq> dr_get_process_id env"
  shows
    "(sysnum = sysnum_TerminateProcess s \<and> dr_convert_handle_to_pid env (param 0) = pid \<and>
      ucast (param 1) = exit_code \<longrightarrow>
        ((\<exists>cb\<in>set (cb_list s). cb_fun env cb pid exit_code) \<longrightarrow>
           soft_kills_pre_syscall WINDOWS env param sysnum s =
             (False, s\<lparr>trace := trace s @ map (\<lambda>cb. Ev_cb cb pid exit_code) (cb_list s) @
                                  [Ev_set_result 0]\<rparr>)) \<and>
        ((\<forall>cb\<in>set (cb_list s). \<not> cb_fun env cb pid exit_code) \<longrightarrow>
           soft_kills_pre_syscall WINDOWS env param sysnum s =
             (True, s\<lparr>trace := trace s @ map (\<lambda>cb. Ev_cb cb pid exit_code) (cb_list s)\<rparr>)))
     \<and>
     (sysnum = SYS_kill env \<and> pid_of_reg env (param 0) = pid \<and>
      ucast (param 1) = SIGKILL \<and> push_bit 8 SIGKILL = exit_code \<longrightarrow>
        ((\<exists>cb\<in>set (cb_list s). cb_fun env cb pid exit_code) \<longrightarrow>
           soft_kills_pre_syscall UNIX env param sysnum s =
             (False, s\<lparr>trace := trace s @ map (\<lambda>cb. Ev_cb cb pid exit_code) (cb_list s) @
                                  [Ev_set_result 0]\<rparr>)) \<and>
        ((\<forall>cb\<in>set (cb_list s). \<not> cb_fun env cb pid exit_code) \<longrightarrow>
           soft_kills_pre_syscall UNIX env param sysnum s =
             (True, s\<lparr>trace := trace s @ map (\<lambda>cb. Ev_cb cb pid exit_code) (cb_list s)\<rparr>)))"
proof -
  have W: "soft_kills_pre_syscall WINDOWS env param sysnum s =
             (if \<exists>cb\<in>set (cb_list s). cb_fun env cb pid exit_code
              then (False, s\<lparr>trace := trace s @ map (\<lambda>cb. Ev_cb cb pid exit_code) (cb_list s) @
                                   [Ev_set_result 0]\<rparr>)
              else (True, s\<lparr>trace := trace s @ map (\<lambda>cb. Ev_cb cb pid exit_code) (cb_list s)\<rparr>))"
    if "sysnum = sysnum_TerminateProcess s" "dr_convert_handle_to_pid env (param 0) = pid"
       "ucast (param 1) = exit_code"
    using that assms pre_TerminateProcess_eq [of sysnum s env param]
    by (simp add: soft_kills_pre_syscall_def Let_def)
  have U: "soft_kills_pre_syscall UNIX env param sysnum s =
             (if \<exists>cb\<in>set (cb_list s). cb_fun env cb pid exit_code
              then (False, s\<lparr>trace := trace s @ map (\<lambda>cb. Ev_cb cb pid exit_code) (cb_list s) @
                                   [Ev_set_result 0]\<rparr>)
              else (True, s\<lparr>trace := trace s @ map (\<lambda>cb. Ev_cb cb pid exit_code) (cb_list s)\<rparr>))"
    if "sysnum = SYS_kill env" "pid_of_reg env (param 0) = pid"
       "ucast (param 1) = SIGKILL" "push_bit 8 SIGKILL = exit_code"
    using that assms pre_kill_eq [of sysnum env param s]
    by (simp add: soft_kills_pre_syscall_def Let_def)
  show ?thesis
    using W U by auto
qed

theorem direct_termination_mediated_witness:
  "(202::nat) \<noteq> INVALID_PROCESS_ID ex_env \<and> 202 \<noteq> dr_get_process_id ex_env \<and>
   (0x2c = sysnum_TerminateProcess (ex_activated [2, 1]) \<and>
    dr_convert_handle_to_pid ex_env (ex_param 0x44 3 0 0 0) = 202 \<and>
    (ucast (ex_param 0x44 3 0 0 1) :: int32) = 3 \<and>
    (\<exists>cb\<in>set (cb_list (ex_activated [2, 1])). cb_fun ex_env cb 202 3)) \<and>
   soft_kills_pre_syscall WINDOWS ex_env (ex_param 0x44 3 0 0) 0x2c (ex_activated [2, 1]) =
     (False, (ex_activated [2, 1])\<lparr>trace := trace (ex_activated [2, 1]) @
                [Ev_cb 2 202 3, Ev_cb 1 202 3, Ev_set_result 0]\<rparr>) \<and>
   (201::nat) \<noteq> INVALID_PROCESS_ID ex_env \<and> 201 \<noteq> dr_get_process_id ex_env \<and>
   (62 = SYS_kill ex_env \<and> pid_of_reg ex_env (ex_param 201 9 0 0 0) = 201 \<and>
    (ucast (ex_param 201 9 0 0 1) :: int32) = SIGKILL \<and> push_bit 8 SIGKILL = (0x900 :: int32) \<and>
    list_all (\<lambda>cb. \<not> cb_fun ex_env cb 201 0x900) (cb_list (ex_activated [2, 1]))) \<and>
   soft_kills_pre_syscall UNIX ex_env (ex_param 201 9 0 0) 62 (ex_activated [2, 1]) =
     (True, (ex_activated [2, 1])\<lparr>trace := trace (ex_activated [2, 1]) @
                [Ev_cb 2 201 0x900, Ev_cb 1 201 0x900]\<rparr>)"
  using direct_termination_mediated [of 202 ex_env "0x2c" "ex_activated [2, 1]" "ex_param 0x44 3 0 0" 3]
        direct_termination_mediated [of 201 ex_env 62 "ex_activated [2, 1]" "ex_param 201 9 0 0" "0x900"]
  by (simp add: SIGKILL_def)

section \<open>C4: termination of a job\<close>




section \<open>C5: configuration of kill-on-job-close\<close>

text \<open>
  C5, as amended. Let the syscall be \<^verbatim>\<open>NtSetInformationJobObject\<close> on job
  \<open>param 0\<close> with class \<^verbatim>\<open>JobObjectExtendedLimitInformation\<close>, a large enough
  size, and a readable structure at \<open>param 2\<close> whose \<^verbatim>\<open>LimitFlags\<close> (at \<open>loc\<close>)
  contain \<^verbatim>\<open>JOB_OBJECT_LIMIT_KILL_ON_JOB_CLOSE\<close>. Then the pre-phase returns true
  (the syscall runs) and:
  \<^item> (a) if \<^verbatim>\<open>dr_safe_write\<close> succeeds at \<open>loc\<close>, the flags in the caller's buffer
    are the original ones without the attribute when the syscall runs; if the write
    fails, the failure is ignored and the buffer is unchanged (the attribute stays);
  \<^item> the patch record holds the original flags and \<open>loc\<close>;
  \<^item> (b) after the post-phase the application memory is what it was before the
    pre-phase, and the record's location is NULL again;
  \<^item> (c) the job handle is in the table after the pre-phase and after the
    post-phase, and stays there through every later pre- and post-phase other than the
    pre-phase of a close of this handle;
  \<^item> no event is produced.
\<close>

theorem kill_on_close_deferred:
  assumes "sysnum = sysnum_SetInformationJobObject s"
    and "sysnum \<noteq> sysnum_TerminateProcess s" and "sysnum \<noteq> sysnum_TerminateJobObject s"
    and "ucast (param 1) = JobObjectExtendedLimitInformation"
    and "sizeof_JOBOBJECT_EXTENDED_LIMIT_INFORMATION \<le> (ucast (param 3) :: ULONG)"
    and "readable (app_mem s) (param 2)"
    and "TEST JOB_OBJECT_LIMIT_KILL_ON_JOB_CLOSE
           (contents (app_mem s) (param 2 + offsetof_LimitFlags))"
    and "param 2 + offsetof_LimitFlags \<noteq> 0"
  shows
    "let loc = param 2 + offsetof_LimitFlags;
         flags = contents (app_mem s) loc;
         r = soft_kills_pre_syscall WINDOWS env param sysnum s;
         s1 = snd r;
         s2 = soft_kills_post_syscall WINDOWS sysnum s1
     in fst r \<and>
        (writable (app_mem s) loc \<longrightarrow>
           contents (app_mem s1) loc = flags AND NOT JOB_OBJECT_LIMIT_KILL_ON_JOB_CLOSE \<and>
           \<not> TEST JOB_OBJECT_LIMIT_KILL_ON_JOB_CLOSE (contents (app_mem s1) loc)) \<and>
        (\<not> writable (app_mem s) loc \<longrightarrow> app_mem s1 = app_mem s) \<and>
        cls s1 = \<lparr>job_limit_flags_orig = flags, job_limit_flags_loc = loc\<rparr> \<and>
        app_mem s2 = app_mem s \<and>
        job_limit_flags_loc (cls s2) = 0 \<and>
        hashtable_lookup env (job_table s1) (param 0) \<and>
        hashtable_lookup env (job_table s2) (param 0) \<and>
        trace s2 = trace s \<and>
        (\<forall>t param' sysnum'.
           hashtable_lookup env (job_table t) (param 0) \<and>
           \<not> (sysnum' = sysnum_Close t \<and> param' 0 = param 0) \<longrightarrow>
             hashtable_lookup env
               (job_table (snd (soft_kills_pre_syscall WINDOWS env param' sysnum' t))) (param 0) \<and>
             hashtable_lookup env
               (job_table (soft_kills_post_syscall WINDOWS sysnum' t)) (param 0))"
proof -
  define loc where "loc = param 2 + offsetof_LimitFlags"
  define flags where "flags = contents (app_mem s) loc"
  define s1 where "s1 = snd (soft_kills_pre_syscall WINDOWS env param sysnum s)"
  define s2 where "s2 = soft_kills_post_syscall WINDOWS sysnum s1"
  have pre: "soft_kills_pre_syscall WINDOWS env param sysnum s =
     (True,
      s\<lparr>cls := \<lparr>job_limit_flags_orig = flags, job_limit_flags_loc = loc\<rparr>,
        app_mem := snd (dr_safe_write (app_mem s) loc
                         (flags AND NOT JOB_OBJECT_LIMIT_KILL_ON_JOB_CLOSE)),
        job_table := snd (hashtable_add env (job_table s) (param 0))\<rparr>)"
    using assms(1-3) pre_SetInformationJobObject_kill_on_close [OF assms(4-7), of env]
    by (simp add: soft_kills_pre_syscall_def soft_kills_pre_syscall_WINDOWS_def loc_def flags_def)
  then have s1: "s1 =
      s\<lparr>cls := \<lparr>job_limit_flags_orig = flags, job_limit_flags_loc = loc\<rparr>,
        app_mem := snd (dr_safe_write (app_mem s) loc
                         (flags AND NOT JOB_OBJECT_LIMIT_KILL_ON_JOB_CLOSE)),
        job_table := snd (hashtable_add env (job_table s) (param 0))\<rparr>"
    by (simp add: s1_def)
  have run: "fst (soft_kills_pre_syscall WINDOWS env param sysnum s)"
    by (simp add: pre)
  have a1: "writable (app_mem s) loc \<longrightarrow>
           contents (app_mem s1) loc = flags AND NOT JOB_OBJECT_LIMIT_KILL_ON_JOB_CLOSE \<and>
           \<not> TEST JOB_OBJECT_LIMIT_KILL_ON_JOB_CLOSE (contents (app_mem s1) loc)"
    by (simp add: s1 contents_safe_write TEST_cleared)
  have a2: "\<not> writable (app_mem s) loc \<longrightarrow> app_mem s1 = app_mem s"
    by (simp add: s1 safe_write_unwritable)
  have rec: "cls s1 = \<lparr>job_limit_flags_orig = flags, job_limit_flags_loc = loc\<rparr>"
    by (simp add: s1)
  have "loc \<noteq> 0" using assms(8) by (simp add: loc_def)
  then have s2: "s2 = s1\<lparr>app_mem := snd (dr_safe_write (app_mem s1) loc flags),
                          cls := (cls s1)\<lparr>job_limit_flags_loc := 0\<rparr>\<rparr>"
    using assms(1)
    by (simp add: s2_def soft_kills_post_syscall_def soft_kills_post_syscall_WINDOWS_def
          s1 split_def)
  have b1: "app_mem s2 = app_mem s"
    using safe_write_restore [of "app_mem s" loc "flags AND NOT JOB_OBJECT_LIMIT_KILL_ON_JOB_CLOSE"]
    by (simp add: s2 s1 flags_def)
  have b2: "job_limit_flags_loc (cls s2) = 0"
    by (simp add: s2)
  have c1: "hashtable_lookup env (job_table s1) (param 0)"
    by (simp add: s1)
  have c2: "hashtable_lookup env (job_table s2) (param 0)"
    by (simp add: s2 s1)
  have tr: "trace s2 = trace s"
    by (simp add: s2 s1)
  have stay: "hashtable_lookup env
               (job_table (snd (soft_kills_pre_syscall WINDOWS env param' sysnum' t))) (param 0) \<and>
             hashtable_lookup env
               (job_table (soft_kills_post_syscall WINDOWS sysnum' t)) (param 0)"
    if "hashtable_lookup env (job_table t) (param 0) \<and>
           \<not> (sysnum' = sysnum_Close t \<and> param' 0 = param 0)"
    for t :: "'a drx_state" and param' sysnum'
  proof -
    from that have l: "hashtable_lookup env (job_table t) (param 0)"
      and n: "\<not> (sysnum' = sysnum_Close t \<and> param' 0 = param 0)"
      by blast+
    show ?thesis
      using pre_WINDOWS_keeps_tracked [of env t "param 0" sysnum' param', OF l n] l
      by (simp add: soft_kills_pre_syscall_def)
  qed
  from run a1 a2 rec b1 b2 c1 c2 tr stay show ?thesis
    unfolding Let_def loc_def [symmetric] flags_def [symmetric] s1_def [symmetric]
      s2_def [symmetric]
    by blast
qed

theorem kill_on_close_deferred_witness:
  "0x190 = sysnum_SetInformationJobObject (ex_activated [2, 1]) \<and>
   0x190 \<noteq> sysnum_TerminateProcess (ex_activated [2, 1]) \<and>
   0x190 \<noteq> sysnum_TerminateJobObject (ex_activated [2, 1]) \<and>
   (ucast (ex_param 0x50 9 0x7000 144 1) :: 32 word) = JobObjectExtendedLimitInformation \<and>
   sizeof_JOBOBJECT_EXTENDED_LIMIT_INFORMATION \<le> (ucast (ex_param 0x50 9 0x7000 144 3) :: ULONG) \<and>
   readable (app_mem (ex_activated [2, 1])) (ex_param 0x50 9 0x7000 144 2) \<and>
   TEST JOB_OBJECT_LIMIT_KILL_ON_JOB_CLOSE
     (contents (app_mem (ex_activated [2, 1])) (ex_param 0x50 9 0x7000 144 2 + offsetof_LimitFlags)) \<and>
   ex_param 0x50 9 0x7000 144 2 + offsetof_LimitFlags \<noteq> 0 \<and>
   writable (app_mem (ex_activated [2, 1])) 0x7010 \<and>
   contents (app_mem (ex_activated [2, 1])) 0x7010 = 0x2008 \<and>
   fst (soft_kills_pre_syscall WINDOWS ex_env (ex_param 0x50 9 0x7000 144) 0x190
          (ex_activated [2, 1])) \<and>
   contents (app_mem (snd (soft_kills_pre_syscall WINDOWS ex_env (ex_param 0x50 9 0x7000 144) 0x190
          (ex_activated [2, 1])))) 0x7010 = 8 \<and>
   cls (snd (soft_kills_pre_syscall WINDOWS ex_env (ex_param 0x50 9 0x7000 144) 0x190
          (ex_activated [2, 1]))) = \<lparr>job_limit_flags_orig = 0x2008, job_limit_flags_loc = 0x7010\<rparr> \<and>
   app_mem ex_tracked = ex_mem \<and>
   job_limit_flags_loc (cls ex_tracked) = 0 \<and>
   hashtable_lookup ex_env (job_table ex_tracked) 0x50 \<and>
   trace ex_tracked = trace (ex_activated [2, 1])"
  using kill_on_close_deferred
          [of "0x190" "ex_activated [2, 1]" "ex_param 0x50 9 0x7000 144" ex_env]
  by (simp add: Let_def ex_tracked_def ex_consts)

text \<open>
  C5 (a) as stated fails when the caller's structure is readable but not writable (at
  0x9000 in \<open>ex_mem\<close>): the write at line 729 fails, which the code ignores (line 732),
  so the syscall runs with the attribute still in its argument, while the handle is
  tracked all the same.
\<close>

theorem kill_on_close_counterexample:
  "readable (app_mem (ex_activated [2, 1])) 0x9000 \<and>
   TEST JOB_OBJECT_LIMIT_KILL_ON_JOB_CLOSE (contents (app_mem (ex_activated [2, 1])) 0x9010) \<and>
   fst (soft_kills_pre_syscall WINDOWS ex_env (ex_param 0x50 9 0x9000 144) 0x190
          (ex_activated [2, 1])) \<and>
   TEST JOB_OBJECT_LIMIT_KILL_ON_JOB_CLOSE
     (contents (app_mem (snd (soft_kills_pre_syscall WINDOWS ex_env (ex_param 0x50 9 0x9000 144)
                                0x190 (ex_activated [2, 1])))) 0x9010) \<and>
   hashtable_lookup ex_env
     (job_table (snd (soft_kills_pre_syscall WINDOWS ex_env (ex_param 0x50 9 0x9000 144)
                        0x190 (ex_activated [2, 1])))) 0x50"
  by (simp add: pre_SetInformationJobObject_ex pre_SetInformationJobObject_kill_on_close
        ex_consts contents_safe_write)

section \<open>C6: close of a handle\<close>



section \<open>C7: self-termination and unresolved targets\<close>

text \<open>
  C7. For every list of subscribers and every behaviour of theirs (\<open>cb_fun env\<close> is
  arbitrary, so also one that always asks to skip): a termination syscall whose target
  is not resolved (\<^verbatim>\<open>INVALID_PROCESS_ID\<close>) or is the caller's own process returns
  true (the syscall runs) and leaves the whole state as it was: no callback is
  called and no result is set.
\<close>

theorem self_and_unresolved_targets_run:
  "(sysnum = sysnum_TerminateProcess s \<and>
    (dr_convert_handle_to_pid env (param 0) = INVALID_PROCESS_ID env \<or>
     dr_convert_handle_to_pid env (param 0) = dr_get_process_id env) \<longrightarrow>
      soft_kills_pre_syscall WINDOWS env param sysnum s = (True, s))
   \<and>
   (sysnum = SYS_kill env \<and>
    (pid_of_reg env (param 0) = INVALID_PROCESS_ID env \<or>
     pid_of_reg env (param 0) = dr_get_process_id env) \<longrightarrow>
      soft_kills_pre_syscall UNIX env param sysnum s = (True, s))"
proof -
  have U: "soft_kills_pre_syscall_UNIX env param sysnum s = (True, s)"
    if "pid_of_reg env (param 0) = INVALID_PROCESS_ID env \<or>
        pid_of_reg env (param 0) = dr_get_process_id env"
    using that by (intro pre_kill_unmediated) auto
  show ?thesis
    using U by (auto simp: soft_kills_pre_syscall_def pre_TerminateProcess_unmediated)
qed

theorem self_and_unresolved_targets_run_witness:
  "0x2c = sysnum_TerminateProcess (ex_activated [2, 1]) \<and>
   dr_convert_handle_to_pid (ex_env\<lparr>cb_fun := \<lambda>cb pid exit_code. True\<rparr>) (ex_param (- 1) 3 0 0 0) =
     dr_get_process_id (ex_env\<lparr>cb_fun := \<lambda>cb pid exit_code. True\<rparr>) \<and>
   soft_kills_pre_syscall WINDOWS (ex_env\<lparr>cb_fun := \<lambda>cb pid exit_code. True\<rparr>)
     (ex_param (- 1) 3 0 0) 0x2c (ex_activated [2, 1]) = (True, ex_activated [2, 1]) \<and>
   dr_convert_handle_to_pid (ex_env\<lparr>cb_fun := \<lambda>cb pid exit_code. True\<rparr>) (ex_param 0x99 3 0 0 0) =
     INVALID_PROCESS_ID (ex_env\<lparr>cb_fun := \<lambda>cb pid exit_code. True\<rparr>) \<and>
   soft_kills_pre_syscall WINDOWS (ex_env\<lparr>cb_fun := \<lambda>cb pid exit_code. True\<rparr>)
     (ex_param 0x99 3 0 0) 0x2c (ex_activated [2, 1]) = (True, ex_activated [2, 1]) \<and>
   62 = SYS_kill (ex_env\<lparr>cb_fun := \<lambda>cb pid exit_code. True\<rparr>) \<and>
   pid_of_reg (ex_env\<lparr>cb_fun := \<lambda>cb pid exit_code. True\<rparr>) (ex_param 100 9 0 0 0) =
     dr_get_process_id (ex_env\<lparr>cb_fun := \<lambda>cb pid exit_code. True\<rparr>) \<and>
   soft_kills_pre_syscall UNIX (ex_env\<lparr>cb_fun := \<lambda>cb pid exit_code. True\<rparr>)
     (ex_param 100 9 0 0) 62 (ex_activated [2, 1]) = (True, ex_activated [2, 1])"
  using self_and_unresolved_targets_run
          [of "0x2c" "ex_activated [2, 1]" "ex_env\<lparr>cb_fun := \<lambda>cb pid exit_code. True\<rparr>"
              "ex_param (- 1) 3 0 0"]
        self_and_unresolved_targets_run
          [of "0x2c" "ex_activated [2, 1]" "ex_env\<lparr>cb_fun := \<lambda>cb pid exit_code. True\<rparr>"
              "ex_param 0x99 3 0 0"]
        self_and_unresolved_targets_run
          [of 62 "ex_activated [2, 1]" "ex_env\<lparr>cb_fun := \<lambda>cb pid exit_code. True\<rparr>"
              "ex_param 100 9 0 0"]
  by simp

section \<open>C8: a skipped syscall reports success\<close>

text \<open>
  C8. For every syscall number, on both platforms, the pre-phase only adds events to
  the trace; every result it sets is 0 (success); and whenever it returns false (skip
  the syscall), the last thing it did was to set the result 0. So the decision is never
  to skip and report a failure.
\<close>

theorem skip_always_reports_success:
  "\<exists>evs. trace (snd (soft_kills_pre_syscall plat env param sysnum s)) = trace s @ evs \<and>
         (\<forall>v. Ev_set_result v \<in> set evs \<longrightarrow> v = 0) \<and>
         (\<not> fst (soft_kills_pre_syscall plat env param sysnum s) \<longrightarrow>
            evs \<noteq> [] \<and> last evs = Ev_set_result 0)"
  by (cases plat) (simp_all add: soft_kills_pre_syscall_def pre_WINDOWS_trace pre_UNIX_trace)

theorem skip_always_reports_success_witness:
  "\<not> fst (soft_kills_pre_syscall WINDOWS ex_env (ex_param 0x50 5 0 0) 0x18d (ex_activated [2, 1])) \<and>
   (\<exists>evs. trace (snd (soft_kills_pre_syscall WINDOWS ex_env (ex_param 0x50 5 0 0) 0x18d
                       (ex_activated [2, 1]))) = trace (ex_activated [2, 1]) @ evs \<and>
          evs \<noteq> [] \<and> last evs = Ev_set_result 0)"
proof -
  have skip: "\<not> fst (soft_kills_pre_syscall WINDOWS ex_env (ex_param 0x50 5 0 0) 0x18d
                       (ex_activated [2, 1]))"
    by (simp add: soft_kills_pre_syscall_def soft_kills_pre_syscall_WINDOWS_def Let_def)
  from skip_always_reports_success [of WINDOWS ex_env "ex_param 0x50 5 0 0" "0x18d" "ex_activated [2, 1]"]
  obtain evs where
    "trace (snd (soft_kills_pre_syscall WINDOWS ex_env (ex_param 0x50 5 0 0) 0x18d
                   (ex_activated [2, 1]))) = trace (ex_activated [2, 1]) @ evs"
    "\<not> fst (soft_kills_pre_syscall WINDOWS ex_env (ex_param 0x50 5 0 0) 0x18d
               (ex_activated [2, 1])) \<longrightarrow> evs \<noteq> [] \<and> last evs = Ev_set_result 0"
    by blast
  with skip show ?thesis by blast
qed

section \<open>C9: teardown\<close>



section \<open>C10: the UNIX variant mediates SIGKILL only\<close>

text \<open>
  C10. On UNIX the pre-phase mediates exactly the \<^verbatim>\<open>kill\<close> syscalls whose signal
  is \<^verbatim>\<open>SIGKILL\<close> and whose target pid is valid and not the caller's own. A
  mediated call invokes every subscriber with the exit code \<^verbatim>\<open>SIGKILL << 8\<close>, which
  is 0x900. Every other call (another syscall, another signal such as \<^verbatim>\<open>SIGTERM\<close>,
  an invalid pid, the caller's own pid) returns true and leaves the state as it was:
  no callback, no result.
\<close>

theorem unix_only_sigkill_mediated:
  "(sysnum = SYS_kill env \<and> ucast (param 1) = SIGKILL \<and>
    pid_of_reg env (param 0) \<noteq> INVALID_PROCESS_ID env \<and>
    pid_of_reg env (param 0) \<noteq> dr_get_process_id env \<longrightarrow>
      soft_kills_pre_syscall UNIX env param sysnum s =
        (if \<exists>cb\<in>set (cb_list s). cb_fun env cb (pid_of_reg env (param 0)) (push_bit 8 SIGKILL)
         then (False,
               s\<lparr>trace := trace s @
                    map (\<lambda>cb. Ev_cb cb (pid_of_reg env (param 0)) (push_bit 8 SIGKILL)) (cb_list s) @
                    [Ev_set_result 0]\<rparr>)
         else (True,
               s\<lparr>trace := trace s @
                    map (\<lambda>cb. Ev_cb cb (pid_of_reg env (param 0)) (push_bit 8 SIGKILL))
                      (cb_list s)\<rparr>)))
   \<and>
   (\<not> (sysnum = SYS_kill env \<and> ucast (param 1) = SIGKILL \<and>
        pid_of_reg env (param 0) \<noteq> INVALID_PROCESS_ID env \<and>
        pid_of_reg env (param 0) \<noteq> dr_get_process_id env) \<longrightarrow>
      soft_kills_pre_syscall UNIX env param sysnum s = (True, s))
   \<and> push_bit 8 SIGKILL = (0x900 :: int32)"
proof -
  have A: "soft_kills_pre_syscall UNIX env param sysnum s =
        (if \<exists>cb\<in>set (cb_list s). cb_fun env cb (pid_of_reg env (param 0)) (push_bit 8 SIGKILL)
         then (False,
               s\<lparr>trace := trace s @
                    map (\<lambda>cb. Ev_cb cb (pid_of_reg env (param 0)) (push_bit 8 SIGKILL)) (cb_list s) @
                    [Ev_set_result 0]\<rparr>)
         else (True,
               s\<lparr>trace := trace s @
                    map (\<lambda>cb. Ev_cb cb (pid_of_reg env (param 0)) (push_bit 8 SIGKILL))
                      (cb_list s)\<rparr>))"
    if "sysnum = SYS_kill env" "ucast (param 1) = SIGKILL"
       "pid_of_reg env (param 0) \<noteq> INVALID_PROCESS_ID env"
       "pid_of_reg env (param 0) \<noteq> dr_get_process_id env"
    using pre_kill_eq [OF that] by (simp add: soft_kills_pre_syscall_def Let_def)
  have B: "soft_kills_pre_syscall UNIX env param sysnum s = (True, s)"
    if "\<not> (sysnum = SYS_kill env \<and> ucast (param 1) = SIGKILL \<and>
        pid_of_reg env (param 0) \<noteq> INVALID_PROCESS_ID env \<and>
        pid_of_reg env (param 0) \<noteq> dr_get_process_id env)"
    using pre_kill_unmediated [OF that] by (simp add: soft_kills_pre_syscall_def)
  have C: "push_bit 8 SIGKILL = (0x900 :: int32)"
    by (simp add: SIGKILL_def)
  from A B C show ?thesis by blast
qed

theorem unix_only_sigkill_mediated_witness:
  "62 = SYS_kill ex_env \<and> (ucast (ex_param 202 9 0 0 1) :: int32) = SIGKILL \<and>
   pid_of_reg ex_env (ex_param 202 9 0 0 0) \<noteq> INVALID_PROCESS_ID ex_env \<and>
   pid_of_reg ex_env (ex_param 202 9 0 0 0) \<noteq> dr_get_process_id ex_env \<and>
   soft_kills_pre_syscall UNIX ex_env (ex_param 202 9 0 0) 62 (ex_activated [2, 1]) =
     (False, (ex_activated [2, 1])\<lparr>trace := trace (ex_activated [2, 1]) @
               [Ev_cb 2 202 0x900, Ev_cb 1 202 0x900, Ev_set_result 0]\<rparr>) \<and>
   (ucast (ex_param 202 15 0 0 1) :: int32) \<noteq> SIGKILL \<and>
   soft_kills_pre_syscall UNIX ex_env (ex_param 202 15 0 0) 62 (ex_activated [2, 1]) =
     (True, ex_activated [2, 1])"
  using unix_only_sigkill_mediated [of 62 ex_env "ex_param 202 9 0 0" "ex_activated [2, 1]"]
        unix_only_sigkill_mediated [of 62 ex_env "ex_param 202 15 0 0" "ex_activated [2, 1]"]
  by (simp add: SIGKILL_def)

end
